theory Spec2Isabelle
  imports Complex_Main "HOL-Library.AList"
begin

section \<open>Digital Library: playback and viewing state, and its timestamp store\<close>

text \<open>
  A shallow embedding of the session logic of \<^verbatim>\<open>src/main.py\<close> (class
  \<^verbatim>\<open>DigitalLibrary\<close>): the timestamp store (\<^verbatim>\<open>load_timestamps\<close>,
  \<^verbatim>\<open>save_timestamps\<close>), the selection transition (\<^verbatim>\<open>handle_media_click\<close>,
  \<^verbatim>\<open>stop_and_save_current_media\<close>, \<^verbatim>\<open>load_vlc_media\<close>, \<^verbatim>\<open>load_pdf_media\<close>,
  \<^verbatim>\<open>_restore_vlc_state\<close>), the transport commands and the progress flush.

  The widget tree is left out. The two engines (VLC and PyMuPDF), the clock, the file
  system and the JSON codec are black boxes: what they answer is read from an
  environment record, what the program asks of them is appended to an event log.
\<close>

subsection \<open>Values of the store\<close>

text \<open>
  \<^verbatim>\<open>json.load\<close> gives Python values. A \<^verbatim>\<open>dict\<close> is an association list read with
  \<^const>\<open>map_of\<close> and written with \<^const>\<open>AList.update\<close>. A finite \<^verbatim>\<open>float\<close> is the
  rational it denotes: the program only compares floats and looks them up, and both are
  exact on floats.
\<close>

datatype pyval =
    PNone
  | PBool bool
  | PInt int
  | PFloat rat
  | PStr string
  | PList "pyval list"
  | PDict "(string \<times> pyval) list"

type_synonym pydict = "(string \<times> pyval) list"

text \<open>A \<^verbatim>\<open>pathlib.Path\<close>, by the three accessors the program reads.\<close>

record pypath =
  path_str :: string
  path_name :: string
  path_suffix :: string

subsection \<open>The store file\<close>

text \<open>
  The library directory holds \<^verbatim>\<open>timestamps.json\<close> and, while a save runs,
  \<^verbatim>\<open>timestamps.json.tmp\<close>. \<open>None\<close> is a file that does not exist.
\<close>

record fs =
  store_file :: "string option"
  temp_file :: "string option"

text \<open>
  What can interrupt the body of \<^verbatim>\<open>save_timestamps\<close>: one of its four system calls
  raises, or the process is killed. \<open>AtWrite k\<close> is an interruption of \<^verbatim>\<open>json.dump\<close>
  after \<open>k\<close> characters have reached the temporary file; a kill at any other stage
  happens just before that stage.
\<close>

datatype stage = AtMkdir | AtOpen | AtWrite nat | AtReplace

datatype fault_kind = Raise | Kill

datatype fault = NoFault | Fault fault_kind stage

datatype body_result = Body_Done | Body_Raised | Body_Killed

fun body_result_of :: "fault_kind \<Rightarrow> body_result" where
  "body_result_of Raise = Body_Raised"
| "body_result_of Kill = Body_Killed"

fun hits :: "fault \<Rightarrow> stage \<Rightarrow> body_result option" where
  "hits NoFault st = None"
| "hits (Fault k st') st = (if st' = st then Some (body_result_of k) else None)"

fun write_hits :: "fault \<Rightarrow> (body_result \<times> nat) option" where
  "write_hits (Fault k (AtWrite n)) = Some (body_result_of k, n)"
| "write_hits _ = None"

text \<open>
  The \<^verbatim>\<open>try\<close> block of \<^verbatim>\<open>save_timestamps\<close>: \<^verbatim>\<open>mkdir\<close>, \<^verbatim>\<open>open(temp_file, 'w')\<close>
  (which truncates), \<^verbatim>\<open>json.dump\<close>, \<^verbatim>\<open>os.replace\<close>. \<open>txt\<close> is the text
  \<^verbatim>\<open>json.dump\<close> produces for the mapping.
\<close>

definition save_try :: "fault \<Rightarrow> string \<Rightarrow> fs \<Rightarrow> body_result \<times> fs" where
  "save_try ft txt f =
     (case hits ft AtMkdir of Some r \<Rightarrow> (r, f) | None \<Rightarrow>
      case hits ft AtOpen of Some r \<Rightarrow> (r, f) | None \<Rightarrow>
      let f1 = f\<lparr>temp_file := Some []\<rparr> in
      case write_hits ft of Some (r, k) \<Rightarrow> (r, f1\<lparr>temp_file := Some (take k txt)\<rparr>) | None \<Rightarrow>
      let f2 = f1\<lparr>temp_file := Some txt\<rparr> in
      case hits ft AtReplace of Some r \<Rightarrow> (r, f2) | None \<Rightarrow>
      (Body_Done, f2\<lparr>store_file := Some txt, temp_file := None\<rparr>))"

datatype save_outcome = Saved | Failed_Logged | Process_Killed

text \<open>
  \<^verbatim>\<open>save_timestamps\<close> on the file system. The handler
  \<^verbatim>\<open>except (OSError, TypeError, Exception)\<close> logs and removes the temporary file if it
  exists; \<open>unlink_fails\<close> is \<^verbatim>\<open>temp_file.unlink()\<close> raising \<^verbatim>\<open>OSError\<close>, which the
  inner handler passes over.
\<close>

definition save_timestamps_io :: "fault \<Rightarrow> bool \<Rightarrow> string \<Rightarrow> fs \<Rightarrow> save_outcome \<times> fs" where
  "save_timestamps_io ft unlink_fails txt f =
     (case save_try ft txt f of
        (Body_Done, f') \<Rightarrow> (Saved, f')
      | (Body_Killed, f') \<Rightarrow> (Process_Killed, f')
      | (Body_Raised, f') \<Rightarrow>
          (Failed_Logged,
           if temp_file f' \<noteq> None then
             (if unlink_fails then f' else f'\<lparr>temp_file := None\<rparr>)
           else f'))"

text \<open>
  \<^verbatim>\<open>load_timestamps\<close> on the file system: the mapping, and whether the error dialog
  was shown. \<open>json_load\<close> is \<^verbatim>\<open>json.load\<close> (\<open>None\<close> when it raises), \<open>read_fails\<close> is
  \<^verbatim>\<open>open\<close> or \<^verbatim>\<open>read\<close> raising \<^verbatim>\<open>OSError\<close>.
\<close>

definition load_timestamps_io ::
  "(string \<Rightarrow> pydict option) \<Rightarrow> bool \<Rightarrow> fs \<Rightarrow> pydict \<times> bool" where
  "load_timestamps_io json_load read_fails f =
     (case store_file f of
        Some txt \<Rightarrow>
          (if read_fails then ([], True)
           else case json_load txt of Some m \<Rightarrow> (m, False) | None \<Rightarrow> ([], True))
      | None \<Rightarrow> ([], False))"

subsection \<open>Engines, environment and application state\<close>

text \<open>The states \<^verbatim>\<open>vlc.State\<close> can report.\<close>

datatype vlc_state =
  NothingSpecial | Opening | Buffering | Playing | Paused | Stopped | Ended | Error

datatype media_type = Video | Audio | Pdf

text \<open>Where \<^verbatim>\<open>load_vlc_media\<close> may meet an exception of the engine.\<close>

datatype vlc_raise = NoRaise | RaiseAtMediaNew | RaiseAfterSetMedia

text \<open>
  What the program asks of its collaborators, in the order it asks. \<open>TsWrite k v\<close> is
  an assignment \<^verbatim>\<open>self.timestamps[k] = v\<close> (or an item assignment inside
  \<^verbatim>\<open>self.timestamps[k]\<close>, with \<open>v\<close> the entry after it); \<open>SaveCall m\<close> is a call
  \<^verbatim>\<open>save_timestamps(m)\<close>; \<open>LogError\<close> and \<open>LogWarning\<close> are \<^verbatim>\<open>logging.error\<close>
  and \<^verbatim>\<open>logging.warning\<close>; \<open>ShowError\<close> is the
  dialog of \<^verbatim>\<open>show_error\<close>, by its title.
\<close>

datatype event =
    VlcStop
  | VlcMediaNew string
  | VlcSetMedia string
  | VlcPlay
  | VlcPause
  | VlcSetTime int
  | VlcSetRate rat
  | VlcGetLength
  | Wait nat
  | PdfOpen string
  | PdfClose string
  | PdfRender int rat
  | TsWrite string pyval
  | SaveCall pydict
  | LogError
  | LogWarning
  | ShowError string

text \<open>
  The answers of the collaborators during one handler run. \<open>vlc_get_time\<close> and
  \<open>vlc_get_length\<close> are optional because the program tests them against \<^verbatim>\<open>None\<close>.
  \<open>length_polls k\<close> is what \<^verbatim>\<open>get_length()\<close> answers at the \<open>k\<close>-th poll of the
  restore loop. \<open>fitz_open\<close> is the page count of the opened document, \<open>None\<close> when
  \<^verbatim>\<open>fitz.open\<close> raises. \<open>save_faults n\<close> is the stage at which the \<open>n\<close>-th save of the
  process raises, if it does. \<open>json_dump\<close> and \<open>json_load\<close> are the standard
  library's codec; \<open>py_float\<close> is \<^verbatim>\<open>float\<close> on a string (\<open>None\<close> for
  \<^verbatim>\<open>ValueError\<close>) and \<open>format_rate\<close> the formatting of a rate for the speed menu.
\<close>

record env =
  now :: string
  vlc_get_state :: vlc_state
  vlc_get_time :: "int option"
  vlc_get_length :: "int option"
  vlc_is_seekable :: bool
  vlc_is_playing :: bool
  vlc_play_result :: int
  vlc_set_rate_result :: int
  vlc_get_rate :: rat
  length_polls :: "nat \<Rightarrow> int"
  vlc_raises :: vlc_raise
  embed_fails :: bool
  fitz_open :: "nat option"
  render_ok :: bool
  save_faults :: "nat \<Rightarrow> stage option"
  unlink_fails :: bool
  read_fails :: bool
  json_dump :: "pydict \<Rightarrow> string"
  json_load :: "string \<Rightarrow> pydict option"
  py_float :: "string \<Rightarrow> rat option"
  format_rate :: "rat \<Rightarrow> string"

text \<open>
  The fields of \<^verbatim>\<open>DigitalLibrary\<close> the session logic uses. \<open>vlc_player\<close> says that
  \<^verbatim>\<open>initialize_vlc\<close> succeeded (player and instance are set together). \<open>vlc_media\<close> is
  what \<^verbatim>\<open>vlc_player.get_media()\<close> returns: the media last given to \<^verbatim>\<open>set_media\<close>.
  \<open>pdf_doc\<close> is the open document, by the path it was opened from. \<open>pdf_widgets\<close> says
  that \<^verbatim>\<open>pdf_image_label\<close> and \<^verbatim>\<open>pdf_viewer_frame\<close> exist. \<open>view\<close> is the last
  argument of \<^verbatim>\<open>manage_views\<close>.
\<close>

record app =
  timestamps :: pydict
  disk :: fs
  saves_done :: nat
  vlc_player :: bool
  vlc_media :: "string option"
  current_vlc_media_path :: "pypath option"
  is_vlc_playing :: bool
  pdf_doc :: "string option"
  current_pdf_path :: "pypath option"
  pdf_current_page_index :: int
  pdf_page_count :: int
  pdf_zoom_level :: rat
  pdf_widgets :: bool
  active_media_type :: "media_type option"
  speed_var :: string
  media_progress_slider :: rat
  view :: "media_type option"
  now_playing :: string
  events :: "event list"

definition emit :: "event list \<Rightarrow> app \<Rightarrow> app" where
  "emit es s = s\<lparr>events := events s @ es\<rparr>"

definition show_error :: "string \<Rightarrow> app \<Rightarrow> app" where
  "show_error title s = emit [ShowError title] s"

definition manage_views :: "media_type option \<Rightarrow> app \<Rightarrow> app" where
  "manage_views v s = s\<lparr>view := v\<rparr>"

subsection \<open>The timestamp store\<close>

definition fault_of :: "stage option \<Rightarrow> fault" where
  "fault_of x = (case x of None \<Rightarrow> NoFault | Some st \<Rightarrow> Fault Raise st)"

text \<open>\<^verbatim>\<open>save_timestamps\<close> inside the running application.\<close>

definition save_timestamps :: "env \<Rightarrow> pydict \<Rightarrow> app \<Rightarrow> app" where
  "save_timestamps e timestamps_data s =
     (case save_timestamps_io (fault_of (save_faults e (saves_done s))) (unlink_fails e)
             (json_dump e timestamps_data) (disk s) of
        (out, f') \<Rightarrow>
          emit (SaveCall timestamps_data # (if out = Failed_Logged then [LogError] else []))
            (s\<lparr>disk := f', saves_done := Suc (saves_done s)\<rparr>))"

text \<open>\<^verbatim>\<open>load_timestamps\<close>: the mapping returned, and the state after the dialog, if any.\<close>

definition load_timestamps :: "env \<Rightarrow> app \<Rightarrow> pydict \<times> app" where
  "load_timestamps e s =
     (case load_timestamps_io (json_load e) (read_fails e) (disk s) of
        (m, failed) \<Rightarrow>
          (m, if failed then show_error ''Timestamp Load Error'' (emit [LogError] s) else s))"

subsection \<open>Constants\<close>

definition SUPPORTED_VIDEO_EXT :: "string list" where
  "SUPPORTED_VIDEO_EXT = [''.mp4'', ''.mkv'', ''.avi'', ''.mov'', ''.wmv'']"

definition SUPPORTED_AUDIO_EXT :: "string list" where
  "SUPPORTED_AUDIO_EXT = [''.mp3'', ''.wav'', ''.ogg'', ''.flac'', ''.aac'']"

definition SUPPORTED_PDF_EXT :: "string list" where
  "SUPPORTED_PDF_EXT = [''.pdf'']"

definition PDF_ZOOM_STEPS :: "rat list" where
  "PDF_ZOOM_STEPS = [1/2, 3/4, 1, 5/4, 3/2, 7/4, 2, 5/2, 3, 4]"

text \<open>\<^verbatim>\<open>max_attempts\<close> of \<^verbatim>\<open>_restore_vlc_state\<close>, and the trailing window of a flush.\<close>

definition max_attempts :: nat where
  "max_attempts = 30"

definition TRAILING_MARGIN :: int where
  "TRAILING_MARGIN = 2000"

subsection \<open>Python helpers\<close>

text \<open>\<^verbatim>\<open>str.lower\<close> on the ASCII letters.\<close>

definition lower_char :: "char \<Rightarrow> char" where
  "lower_char c =
     (case map_of (zip ''ABCDEFGHIJKLMNOPQRSTUVWXYZ'' ''abcdefghijklmnopqrstuvwxyz'') c of
        Some l \<Rightarrow> l | None \<Rightarrow> c)"

definition lower :: "string \<Rightarrow> string" where
  "lower str = map lower_char str"

text \<open>\<^verbatim>\<open>list.index\<close>: \<open>None\<close> is \<^verbatim>\<open>ValueError\<close>.\<close>

fun index_py :: "'a list \<Rightarrow> 'a \<Rightarrow> nat option" where
  "index_py [] x = None"
| "index_py (y # ys) x = (if y = x then Some 0 else map_option Suc (index_py ys x))"

text \<open>
  \<^verbatim>\<open>isinstance(v, (int, float))\<close> with the number \<open>v\<close> denotes (\<^verbatim>\<open>bool\<close> is a subclass of
  \<^verbatim>\<open>int\<close>), and \<^verbatim>\<open>int(x)\<close>, which truncates towards zero.
\<close>

fun py_number :: "pyval \<Rightarrow> rat option" where
  "py_number (PInt i) = Some (of_int i)"
| "py_number (PFloat q) = Some q"
| "py_number (PBool b) = Some (if b then 1 else 0)"
| "py_number _ = None"

definition py_int :: "rat \<Rightarrow> int" where
  "py_int q = (if 0 \<le> q then \<lfloor>q\<rfloor> else \<lceil>q\<rceil>)"

text \<open>The fields of the entry under a key, when that entry is a \<^verbatim>\<open>dict\<close>.\<close>

definition entry_fields :: "pydict \<Rightarrow> string \<Rightarrow> pydict option" where
  "entry_fields ts k = (case map_of ts k of Some (PDict d) \<Rightarrow> Some d | _ \<Rightarrow> None)"

text \<open>\<^verbatim>\<open>self.timestamps[k] = v\<close>.\<close>

definition ts_set :: "string \<Rightarrow> pyval \<Rightarrow> app \<Rightarrow> app" where
  "ts_set k v s = emit [TsWrite k v] (s\<lparr>timestamps := AList.update k v (timestamps s)\<rparr>)"

subsection \<open>Flushing the progress of an audio-visual session\<close>

text \<open>
  The \<^verbatim>\<open>dict\<close> literal that \<^verbatim>\<open>save_current_vlc_timestamp\<close> and
  \<^verbatim>\<open>update_all_cards_display\<close> both build from the engine's time and length.
\<close>

definition timestamp_data :: "string \<Rightarrow> string \<Rightarrow> int \<Rightarrow> int \<Rightarrow> pyval" where
  "timestamp_data now_iso filename current_time_ms duration_ms =
     (let is_finished = (duration_ms > 0 \<and> current_time_ms \<ge> duration_ms - TRAILING_MARGIN) in
      PDict [(''position'', PInt (if is_finished then 0 else current_time_ms)),
             (''duration'', PInt duration_ms),
             (''last_played'', PStr now_iso),
             (''filename'', PStr filename),
             (''finished'', PBool is_finished)])"

definition save_current_vlc_timestamp :: "env \<Rightarrow> app \<Rightarrow> app" where
  "save_current_vlc_timestamp e s =
     (case current_vlc_media_path s of
        None \<Rightarrow> s
      | Some p \<Rightarrow>
          if \<not> vlc_player s then s
          else if vlc_media s = None then s
          else
            (case (vlc_get_time e, vlc_get_length e) of
               (Some current_time_ms, Some duration_ms) \<Rightarrow>
                 if vlc_get_state e \<in> {Playing, Paused} \<and> duration_ms \<ge> 0 \<and> current_time_ms \<ge> 0
                 then
                   (let s1 = ts_set (path_str p)
                               (timestamp_data (now e) (path_name p) current_time_ms duration_ms) s
                    in save_timestamps e (timestamps s1) s1)
                 else s
             | _ \<Rightarrow> s))"

definition periodic_save_timestamp :: "env \<Rightarrow> app \<Rightarrow> app" where
  "periodic_save_timestamp e s =
     (if vlc_player s \<and> current_vlc_media_path s \<noteq> None \<and> is_vlc_playing s
      then save_current_vlc_timestamp e s else s)"

text \<open>
  \<^verbatim>\<open>update_all_cards_display\<close>, without the refresh of the cards: the in-memory update
  of the playing media's entry (\<open>update_vlc_entry\<close>), then that of the open document's
  entry (\<open>update_pdf_entry\<close>).
\<close>

definition update_vlc_entry :: "env \<Rightarrow> app \<Rightarrow> app" where
  "update_vlc_entry e s =
     (case current_vlc_media_path s of
        None \<Rightarrow> s
      | Some p \<Rightarrow>
          if vlc_player s \<and> vlc_get_state e \<in> {Playing, Paused} then
            (case (vlc_get_time e, vlc_get_length e) of
               (Some current_time, Some duration) \<Rightarrow>
                 if duration \<ge> 0 \<and> current_time \<ge> 0
                 then ts_set (path_str p)
                        (timestamp_data (now e) (path_name p) current_time duration) s
                 else s
             | _ \<Rightarrow> s)
          else s)"

definition update_pdf_entry :: "env \<Rightarrow> app \<Rightarrow> app" where
  "update_pdf_entry e s =
     (case (pdf_doc s, current_pdf_path s) of
        (Some doc, Some p) \<Rightarrow>
          (let key = path_str p;
               s2 = (if map_of (timestamps s) key = None then ts_set key (PDict []) s else s)
           in case entry_fields (timestamps s2) key of
                Some d \<Rightarrow>
                  (let d1 = AList.update ''last_opened'' (PStr (now e)) d;
                       s3 = ts_set key (PDict d1) s2
                   in ts_set key (PDict (AList.update ''filename'' (PStr (path_name p)) d1)) s3)
              | None \<Rightarrow> s2)
      | _ \<Rightarrow> s)"

definition update_all_cards_display :: "env \<Rightarrow> app \<Rightarrow> app" where
  "update_all_cards_display e s = update_pdf_entry e (update_vlc_entry e s)"

subsection \<open>Leaving the current session\<close>

text \<open>
  \<^verbatim>\<open>stop_and_save_current_media\<close>, by its two blocks. The first (\<open>stop_vlc\<close>) stops
  the player, after a flush when the engine is playing or paused. The second
  (\<open>close_pdf\<close>) stores page and zoom of the open document when the store has an entry
  for it (\<open>store_pdf_position\<close>, with \<^verbatim>\<open>if not isinstance(..., dict): ... = {}\<close>
  first) and closes the document.
\<close>

definition stop_vlc :: "env \<Rightarrow> app \<Rightarrow> app" where
  "stop_vlc e s =
     (if vlc_player s \<and> current_vlc_media_path s \<noteq> None then
        (let current_state = vlc_get_state e;
             s' = (if current_state \<in> {Playing, Paused}
                   then emit [VlcStop] (save_current_vlc_timestamp e s)
                   else if current_state \<noteq> Stopped \<and> current_state \<noteq> NothingSpecial
                           \<and> current_state \<noteq> Ended
                   then emit [VlcStop] s
                   else s)
         in s'\<lparr>is_vlc_playing := False, media_progress_slider := 0\<rparr>)
      else s)"

definition store_pdf_position :: "env \<Rightarrow> string \<Rightarrow> app \<Rightarrow> app" where
  "store_pdf_position e media_key s =
     (if map_of (timestamps s) media_key \<noteq> None then
        (let sa = (if entry_fields (timestamps s) media_key = None
                   then ts_set media_key (PDict []) s else s);
             d = (case entry_fields (timestamps sa) media_key of Some d \<Rightarrow> d | None \<Rightarrow> []);
             d1 = AList.update ''pdf_page'' (PInt (pdf_current_page_index sa)) d;
             sb = ts_set media_key (PDict d1) sa;
             sc = ts_set media_key
                    (PDict (AList.update ''pdf_zoom'' (PFloat (pdf_zoom_level sb)) d1)) sb
         in save_timestamps e (timestamps sc) sc)
      else s)"

definition close_pdf :: "env \<Rightarrow> app \<Rightarrow> app" where
  "close_pdf e s =
     (case (pdf_doc s, current_pdf_path s) of
        (Some doc, Some p) \<Rightarrow>
          (emit [PdfClose doc] (store_pdf_position e (path_str p) s))
            \<lparr>pdf_doc := None, pdf_page_count := 0, pdf_current_page_index := 0\<rparr>
      | _ \<Rightarrow> s)"

definition stop_and_save_current_media :: "env \<Rightarrow> app \<Rightarrow> app" where
  "stop_and_save_current_media e s = (close_pdf e (stop_vlc e s))\<lparr>active_media_type := None\<rparr>"

subsection \<open>Rate changes\<close>

text \<open>
  \<^verbatim>\<open>change_playback_speed\<close>. \<^verbatim>\<open>speed_str.replace('x', '')\<close> drops every \<open>x\<close>.
\<close>

definition change_playback_speed :: "env \<Rightarrow> string \<Rightarrow> app \<Rightarrow> app" where
  "change_playback_speed e speed_str s =
     (if vlc_player s \<and> current_vlc_media_path s \<noteq> None then
        (case py_float e (filter (\<lambda>c. c \<noteq> CHR ''x'') speed_str) of
           None \<Rightarrow> emit [LogError] s
         | Some speed_value \<Rightarrow>
             if vlc_get_state e \<in> {Playing, Paused} then
               (let s1 = emit [VlcSetRate speed_value] s in
                if vlc_set_rate_result e = 0 then s1
                else s1\<lparr>speed_var := format_rate e (vlc_get_rate e)\<rparr>)
             else s)
      else s)"

text \<open>
  A choice in the speed menu. The menu is built with \<^verbatim>\<open>variable=self.speed_var,
  command=self.change_playback_speed\<close>: the widget stores the chosen text in its
  variable, shows it, and then calls the command with it.
\<close>

definition speed_menu_select :: "env \<Rightarrow> string \<Rightarrow> app \<Rightarrow> app" where
  "speed_menu_select e choice s = change_playback_speed e choice (s\<lparr>speed_var := choice\<rparr>)"

subsection \<open>Opening an audio-visual resource\<close>

definition vlc_load_failed :: "app \<Rightarrow> app" where
  "vlc_load_failed s =
     manage_views None
       ((show_error ''Playback Error'' (emit [LogError] s))
          \<lparr>current_vlc_media_path := None, is_vlc_playing := False\<rparr>)"

text \<open>
  \<^verbatim>\<open>load_vlc_media\<close>. The restore of position and speed is scheduled 300 ms later and is
  a step of its own (\<open>restore_vlc_state\<close>).
\<close>

definition load_vlc_media :: "env \<Rightarrow> pypath \<Rightarrow> app \<Rightarrow> app" where
  "load_vlc_media e file_path s =
     (if \<not> vlc_player s then show_error ''Playback Error'' (emit [LogError] s)
      else
        (let s1 = (if vlc_media s \<noteq> None then emit [VlcStop] s else s) in
         if vlc_raises e = RaiseAtMediaNew then vlc_load_failed s1
         else
           (let s2 = (emit [VlcMediaNew (path_str file_path), VlcSetMedia (path_str file_path)] s1)
                       \<lparr>vlc_media := Some (path_str file_path),
                        current_vlc_media_path := Some file_path\<rparr>
            in
            if vlc_raises e = RaiseAfterSetMedia then vlc_load_failed s2
            else
              (let s3 = (if active_media_type s2 = Some Video then
                           (if embed_fails e
                            then manage_views (Some Audio) (emit [LogError] (manage_views (Some Video) s2))
                            else manage_views (Some Video) s2)
                         else if active_media_type s2 = Some Audio then manage_views (Some Audio) s2
                         else s2);
                   s4 = emit [VlcPlay] s3
               in
               if vlc_play_result e = - 1 then
                 manage_views None
                   ((show_error ''Playback Error'' (emit [LogError] s4))
                      \<lparr>current_vlc_media_path := None\<rparr>)
               else s4\<lparr>is_vlc_playing := True\<rparr>))))"

text \<open>
  The waiting loop of \<^verbatim>\<open>_restore_vlc_state\<close>: \<^verbatim>\<open>while duration <= 0 and wait_attempts <
  max_attempts\<close>. Each round asks the engine for the length, and on a length that is not
  positive counts the attempt and waits 100 ms.
\<close>

function poll_loop :: "(nat \<Rightarrow> int) \<Rightarrow> int \<Rightarrow> nat \<Rightarrow> app \<Rightarrow> int \<times> nat \<times> app" where
  "poll_loop polls duration wait_attempts s =
     (if duration \<le> 0 \<and> wait_attempts < max_attempts then
        (let d = polls wait_attempts; s1 = emit [VlcGetLength] s in
         if d > 0 then (d, wait_attempts, s1)
         else poll_loop polls d (wait_attempts + 1) (emit [Wait 100] s1))
      else (duration, wait_attempts, s))"
  by pat_completeness auto
termination
  by (relation "measure (\<lambda>(polls, duration, wait_attempts, s). max_attempts - wait_attempts)") auto

declare poll_loop.simps [simp del]

text \<open>
  \<^verbatim>\<open>_restore_vlc_state\<close>, by its blocks: the seek to the saved position
  (\<open>restore_position\<close>, given the duration the waiting loop ended with), the restore of
  the playback speed (\<open>restore_speed\<close>), and the whole.
\<close>

definition restore_position :: "int \<Rightarrow> string \<Rightarrow> app \<Rightarrow> app" where
  "restore_position duration media_key s =
     (case entry_fields (timestamps s) media_key of
        Some saved_data \<Rightarrow>
          (case map_of saved_data ''position'' of
             Some v \<Rightarrow>
               (case py_number v of
                  Some saved_time_ms \<Rightarrow>
                    if duration > 0 \<and> 0 < saved_time_ms \<and> saved_time_ms < of_int duration
                    then emit [VlcSetTime (py_int saved_time_ms)] s
                    else if saved_time_ms \<le> 0 then s
                    else emit [LogWarning, VlcSetTime 0] s
                | None \<Rightarrow> s)
           | None \<Rightarrow> s)
      | None \<Rightarrow> s)"

definition restore_speed :: "env \<Rightarrow> app \<Rightarrow> app" where
  "restore_speed e s =
     (if vlc_get_state e \<in> {Playing, Paused} then change_playback_speed e (speed_var s) s else s)"

definition restore_vlc_state :: "env \<Rightarrow> app \<Rightarrow> app" where
  "restore_vlc_state e s =
     (case current_vlc_media_path s of
        None \<Rightarrow> s
      | Some p \<Rightarrow>
          if \<not> vlc_player s \<or> vlc_media s = None then s
          else
            (case poll_loop (length_polls e) 0 0 s of
               (duration, wait_attempts, s1) \<Rightarrow>
                 restore_speed e
                   (restore_position duration (path_str p)
                      (if duration \<le> 0 then emit [LogWarning] s1 else s1))))"

subsection \<open>Opening a paged document\<close>

text \<open>
  The \<^verbatim>\<open>try\<close> block of \<^verbatim>\<open>load_pdf_media\<close>, by its parts: closing a document that is
  still open (\<open>close_previous_pdf\<close>); the assignments after \<^verbatim>\<open>fitz.open\<close> succeeded
  (\<open>open_pdf\<close>); storing the time of opening and saving (\<open>store_last_opened\<close>, \<open>None\<close>
  when the item assignment meets an entry that is not a \<^verbatim>\<open>dict\<close> and raises); the
  branch on the page count (\<open>show_pdf\<close>). The flag of \<open>load_pdf_try\<close> says that the
  block raised. The first render is scheduled 50 ms later and is a step of its own.
\<close>

definition close_previous_pdf :: "app \<Rightarrow> app" where
  "close_previous_pdf s =
     (case pdf_doc s of
        Some doc \<Rightarrow> (emit [PdfClose doc] s)\<lparr>pdf_doc := None\<rparr>
      | None \<Rightarrow> s)"

definition open_pdf :: "nat \<Rightarrow> pypath \<Rightarrow> app \<Rightarrow> app" where
  "open_pdf n file_path s =
     (emit [PdfOpen (path_str file_path)] s)
       \<lparr>pdf_doc := Some (path_str file_path),
        current_pdf_path := Some file_path,
        pdf_page_count := int n,
        pdf_current_page_index := 0,
        pdf_zoom_level := 1\<rparr>"

definition store_last_opened :: "env \<Rightarrow> pypath \<Rightarrow> app \<Rightarrow> app option" where
  "store_last_opened e file_path s =
     (let media_key = path_str file_path;
          s3 = (if map_of (timestamps s) media_key = None
                then ts_set media_key (PDict []) s else s)
      in case entry_fields (timestamps s3) media_key of
           None \<Rightarrow> None
         | Some d \<Rightarrow>
             (let d1 = AList.update ''last_opened'' (PStr (now e)) d;
                  s4 = ts_set media_key (PDict d1) s3;
                  s5 = ts_set media_key
                         (PDict (AList.update ''filename'' (PStr (path_name file_path)) d1)) s4
              in Some (save_timestamps e (timestamps s5) s5)))"

definition show_pdf :: "pypath \<Rightarrow> app \<Rightarrow> app" where
  "show_pdf file_path s =
     (if pdf_page_count s > 0 then manage_views (Some Pdf) s
      else
        manage_views None
          ((emit [PdfClose (path_str file_path)] (show_error ''PDF Error'' (emit [LogWarning] s)))
             \<lparr>pdf_doc := None, current_pdf_path := None\<rparr>))"

definition load_pdf_try :: "env \<Rightarrow> pypath \<Rightarrow> app \<Rightarrow> bool \<times> app" where
  "load_pdf_try e file_path s =
     (let s1 = close_previous_pdf s
      in case fitz_open e of
           None \<Rightarrow> (True, s1)
         | Some n \<Rightarrow>
             (let s2 = open_pdf n file_path s1
              in case store_last_opened e file_path s2 of
                   None \<Rightarrow> (True, s2)
                 | Some s6 \<Rightarrow> (False, show_pdf file_path s6)))"

definition load_pdf_media :: "env \<Rightarrow> pypath \<Rightarrow> app \<Rightarrow> app" where
  "load_pdf_media e file_path s =
     (case load_pdf_try e file_path s of
        (False, s') \<Rightarrow> s'
      | (True, s') \<Rightarrow>
          (let s1 = show_error ''PDF Load Error'' (emit [LogError] s');
               s2 = (case pdf_doc s1 of Some doc \<Rightarrow> emit [PdfClose doc] s1 | None \<Rightarrow> s1)
           in manage_views None
                (s2\<lparr>pdf_doc := None, current_pdf_path := None, active_media_type := None\<rparr>)))"

subsection \<open>The selection transition\<close>

definition handle_media_click :: "env \<Rightarrow> pypath \<Rightarrow> app \<Rightarrow> app" where
  "handle_media_click e file_path s =
     (let s1 = stop_and_save_current_media e s;
          file_ext = lower (path_suffix file_path);
          s2 =
            (if file_ext \<in> set SUPPORTED_VIDEO_EXT \<or> file_ext \<in> set SUPPORTED_AUDIO_EXT then
               load_vlc_media e file_path
                 (s1\<lparr>active_media_type :=
                       Some (if file_ext \<in> set SUPPORTED_VIDEO_EXT then Video else Audio)\<rparr>)
             else if file_ext \<in> set SUPPORTED_PDF_EXT then
               load_pdf_media e file_path (s1\<lparr>active_media_type := Some Pdf\<rparr>)
             else
               manage_views None
                 ((show_error ''Unsupported File'' (emit [LogWarning] s1))\<lparr>active_media_type := None\<rparr>))
      in s2\<lparr>now_playing := ''Selected: '' @ path_name file_path\<rparr>)"

subsection \<open>Commands of a paged-document session\<close>

text \<open>
  \<^verbatim>\<open>render_pdf_page\<close>: the page index is stored only after a successful render;
  \<open>render_ok\<close> is false when the engine raises inside the \<^verbatim>\<open>try\<close> block.
\<close>

definition render_pdf_page :: "env \<Rightarrow> int \<Rightarrow> app \<Rightarrow> app" where
  "render_pdf_page e page_index s =
     (if pdf_doc s = None \<or> \<not> pdf_widgets s then emit [LogWarning] s
      else if \<not> (0 \<le> page_index \<and> page_index < pdf_page_count s) then emit [LogWarning] s
      else if render_ok e
        then (emit [PdfRender page_index (pdf_zoom_level s)] s)\<lparr>pdf_current_page_index := page_index\<rparr>
        else emit [LogError] s)"

definition pdf_next_page :: "env \<Rightarrow> app \<Rightarrow> app" where
  "pdf_next_page e s =
     (if pdf_doc s \<noteq> None \<and> pdf_current_page_index s < pdf_page_count s - 1
      then render_pdf_page e (pdf_current_page_index s + 1) s
      else s)"

definition pdf_previous_page :: "env \<Rightarrow> app \<Rightarrow> app" where
  "pdf_previous_page e s =
     (if pdf_doc s \<noteq> None \<and> pdf_current_page_index s > 0
      then render_pdf_page e (pdf_current_page_index s - 1) s
      else s)"

text \<open>
  \<^verbatim>\<open>pdf_zoom_in\<close> and \<^verbatim>\<open>pdf_zoom_out\<close>. The \<^verbatim>\<open>except ValueError\<close> branch takes the
  first step above (the last step below) the current level.
\<close>

definition pdf_zoom_in :: "env \<Rightarrow> app \<Rightarrow> app" where
  "pdf_zoom_in e s =
     (if pdf_doc s = None then s
      else
        (case index_py PDF_ZOOM_STEPS (pdf_zoom_level s) of
           Some current_zoom_index \<Rightarrow>
             if current_zoom_index < length PDF_ZOOM_STEPS - 1
             then render_pdf_page e (pdf_current_page_index s)
                    (s\<lparr>pdf_zoom_level := PDF_ZOOM_STEPS ! (current_zoom_index + 1)\<rparr>)
             else s
         | None \<Rightarrow>
             (case find (\<lambda>step. step > pdf_zoom_level s) PDF_ZOOM_STEPS of
                Some step \<Rightarrow>
                  render_pdf_page e (pdf_current_page_index s)
                    ((emit [LogWarning] s)\<lparr>pdf_zoom_level := step\<rparr>)
              | None \<Rightarrow> emit [LogWarning] s)))"

definition pdf_zoom_out :: "env \<Rightarrow> app \<Rightarrow> app" where
  "pdf_zoom_out e s =
     (if pdf_doc s = None then s
      else
        (case index_py PDF_ZOOM_STEPS (pdf_zoom_level s) of
           Some current_zoom_index \<Rightarrow>
             if current_zoom_index > 0
             then render_pdf_page e (pdf_current_page_index s)
                    (s\<lparr>pdf_zoom_level := PDF_ZOOM_STEPS ! (current_zoom_index - 1)\<rparr>)
             else s
         | None \<Rightarrow>
             (case find (\<lambda>step. step < pdf_zoom_level s) (rev PDF_ZOOM_STEPS) of
                Some step \<Rightarrow>
                  render_pdf_page e (pdf_current_page_index s)
                    ((emit [LogWarning] s)\<lparr>pdf_zoom_level := step\<rparr>)
              | None \<Rightarrow> emit [LogWarning] s)))"

subsection \<open>Seeking in an audio-visual session\<close>

text \<open>
  \<^verbatim>\<open>skip_time\<close>. A time or length of \<^verbatim>\<open>None\<close> makes the arithmetic raise, which the
  handler logs. The refresh of slider and time label that follows the seek is
  presentation and is left out.
\<close>

definition skip_time :: "env \<Rightarrow> int \<Rightarrow> app \<Rightarrow> app" where
  "skip_time e ms_offset s =
     (if vlc_player s \<and> current_vlc_media_path s \<noteq> None \<and> vlc_is_seekable e then
        (case (vlc_get_time e, vlc_get_length e) of
           (Some current_time, Some duration) \<Rightarrow>
             (let new_time = current_time + ms_offset;
                  new_time' = (if duration > 0 then max 0 (min new_time (duration - 100))
                               else max 0 new_time)
              in emit [VlcSetTime new_time'] s)
         | _ \<Rightarrow> emit [LogError] s)
      else if vlc_player s \<and> \<not> vlc_is_seekable e then emit [LogWarning] s
      else s)"

text \<open>
  \<^verbatim>\<open>on_media_slider_release\<close>. The slider runs from 0 to 100; the target is
  \<^verbatim>\<open>int((value / 100.0) * duration)\<close>, computed here on rationals (the rounding of
  the float product is not modelled).
\<close>

definition on_media_slider_release :: "env \<Rightarrow> app \<Rightarrow> app" where
  "on_media_slider_release e s =
     (if \<not> vlc_player s \<or> current_vlc_media_path s = None \<or> \<not> vlc_is_seekable e then s
      else
        (case vlc_get_length e of
           Some duration \<Rightarrow>
             if duration > 0 then
               (let target_time = py_int ((media_progress_slider s / 100) * of_int duration);
                    s1 = emit [VlcSetTime target_time] s
                in if \<not> is_vlc_playing s1 then save_current_vlc_timestamp e s1 else s1)
             else emit [LogWarning] s
         | None \<Rightarrow> emit [LogError] s))"

text \<open>Dragging the slider to a value between 0 and 100 (the widget clamps).\<close>

definition slider_drag :: "rat \<Rightarrow> app \<Rightarrow> app" where
  "slider_drag v s = s\<lparr>media_progress_slider := max 0 (min 100 v)\<rparr>"

subsection \<open>Runs of the application\<close>

text \<open>
  What can happen to the running application: the user's commands and the callbacks
  the program schedules for itself (the restore after a load, the first render, the
  two periodic timers).
\<close>

datatype action =
    Click pypath
  | RestoreVlcState
  | RenderCurrentPage
  | NextPage
  | PreviousPage
  | ZoomIn
  | ZoomOut
  | SkipTime int
  | SliderDrag rat
  | SliderRelease
  | SpeedSelect string
  | PeriodicSave
  | CardsUpdate

fun step :: "env \<Rightarrow> action \<Rightarrow> app \<Rightarrow> app" where
  "step e (Click p) s = handle_media_click e p s"
| "step e RestoreVlcState s = restore_vlc_state e s"
| "step e RenderCurrentPage s = render_pdf_page e (pdf_current_page_index s) s"
| "step e NextPage s = pdf_next_page e s"
| "step e PreviousPage s = pdf_previous_page e s"
| "step e ZoomIn s = pdf_zoom_in e s"
| "step e ZoomOut s = pdf_zoom_out e s"
| "step e (SkipTime ms) s = skip_time e ms s"
| "step e (SliderDrag v) s = slider_drag v s"
| "step e SliderRelease s = on_media_slider_release e s"
| "step e (SpeedSelect c) s = speed_menu_select e c s"
| "step e PeriodicSave s = periodic_save_timestamp e s"
| "step e CardsUpdate s = update_all_cards_display e s"

fun run :: "(env \<times> action) list \<Rightarrow> app \<Rightarrow> app" where
  "run [] s = s"
| "run ((e, a) # rest) s = run rest (step e a s)"

text \<open>The commands of a paged-document session, and the first render.\<close>

fun is_pdf_command :: "action \<Rightarrow> bool" where
  "is_pdf_command NextPage = True"
| "is_pdf_command PreviousPage = True"
| "is_pdf_command ZoomIn = True"
| "is_pdf_command ZoomOut = True"
| "is_pdf_command RenderCurrentPage = True"
| "is_pdf_command a = False"

text \<open>Page index within the document, zoom within the zoom steps.\<close>

definition pdf_inv :: "app \<Rightarrow> bool" where
  "pdf_inv s \<longleftrightarrow> 0 \<le> pdf_current_page_index s \<and> pdf_current_page_index s < pdf_page_count s
      \<and> 1/2 \<le> pdf_zoom_level s \<and> pdf_zoom_level s \<le> 4"

text \<open>
  The state after \<^verbatim>\<open>__init__\<close>, with the mapping \<^verbatim>\<open>load_timestamps\<close> returned, the
  content of the library directory, and whether \<^verbatim>\<open>initialize_vlc\<close> succeeded.
\<close>

definition init_app :: "pydict \<Rightarrow> fs \<Rightarrow> bool \<Rightarrow> app" where
  "init_app ts f vlc_ok =
     \<lparr>timestamps = ts, disk = f, saves_done = 0,
      vlc_player = vlc_ok, vlc_media = None, current_vlc_media_path = None,
      is_vlc_playing = False,
      pdf_doc = None, current_pdf_path = None, pdf_current_page_index = 0,
      pdf_page_count = 0, pdf_zoom_level = 1, pdf_widgets = True,
      active_media_type = None, speed_var = ''1.0x'', media_progress_slider = 0,
      view = None, now_playing = [], events = []\<rparr>"

subsection \<open>Reading records and event logs\<close>

text \<open>The events a handler appended: those of the state after, past those before.\<close>

definition new_events :: "app \<Rightarrow> app \<Rightarrow> event list" where
  "new_events s s' = drop (length (events s)) (events s')"

text \<open>An integer or boolean field of a stored record.\<close>

fun rec_int :: "string \<Rightarrow> pyval \<Rightarrow> int option" where
  "rec_int field (PDict d) = (case map_of d field of Some (PInt i) \<Rightarrow> Some i | _ \<Rightarrow> None)"
| "rec_int field _ = None"

fun rec_bool :: "string \<Rightarrow> pyval \<Rightarrow> bool option" where
  "rec_bool field (PDict d) = (case map_of d field of Some (PBool b) \<Rightarrow> Some b | _ \<Rightarrow> None)"
| "rec_bool field _ = None"

fun is_dialog :: "event \<Rightarrow> bool" where
  "is_dialog (ShowError t) = True"
| "is_dialog _ = False"

subsection \<open>Engine handles in an event log\<close>





text \<open>
  Events that open, close, load, start or stop an engine handle; a step that appends
  none of them and keeps document and media; and the invariant of a session: the log
  opens a document only while none is open and loads a media only while the player is
  stopped, an open document is the one \<open>pdf_doc\<close> holds and has its path recorded, and
  a running player has a media.
\<close>

fun handle_event :: "event \<Rightarrow> bool" where
  "handle_event (PdfOpen p) = True"
| "handle_event (PdfClose p) = True"
| "handle_event (VlcMediaNew p) = True"
| "handle_event (VlcSetMedia p) = True"
| "handle_event VlcPlay = True"
| "handle_event VlcStop = True"
| "handle_event ev = False"

definition quiet_step :: "app \<Rightarrow> app \<Rightarrow> bool" where
  "quiet_step s s' \<longleftrightarrow>
     (\<exists>es. events s' = events s @ es \<and> list_all (\<lambda>ev. \<not> handle_event ev) es)
     \<and> pdf_doc s' = pdf_doc s \<and> vlc_media s' = vlc_media s
     \<and> current_pdf_path s' = current_pdf_path s"



text \<open>
  The seek targets sent to the engine in a log, the number of length queries, and the
  milliseconds spent waiting.
\<close>

fun seeks :: "event list \<Rightarrow> int list" where
  "seeks [] = []"
| "seeks (VlcSetTime t # es) = t # seeks es"
| "seeks (ev # es) = seeks es"




subsection \<open>Example data\<close>

text \<open>The library of the end-to-end scenario: \<^verbatim>\<open>a.mp4\<close> and \<^verbatim>\<open>b.pdf\<close>.\<close>

definition a_mp4 :: pypath where
  "a_mp4 = \<lparr>path_str = ''/lib/a.mp4'', path_name = ''a.mp4'', path_suffix = ''.mp4''\<rparr>"

definition b_pdf :: pypath where
  "b_pdf = \<lparr>path_str = ''/lib/b.pdf'', path_name = ''b.pdf'', path_suffix = ''.pdf''\<rparr>"

definition c_pdf :: pypath where
  "c_pdf = \<lparr>path_str = ''/lib/c.PDF'', path_name = ''c.PDF'', path_suffix = ''.PDF''\<rparr>"

definition store_a :: pydict where
  "store_a = [(''/lib/a.mp4'', timestamp_data ''2026-01-01T10:00:00'' ''a.mp4'' 40000 100000)]"

definition store_b :: pydict where
  "store_b = [(''/lib/b.pdf'',
               PDict [(''last_opened'', PStr ''2026-01-01T09:00:00''), (''filename'', PStr ''b.pdf''),
                      (''pdf_page'', PInt 3), (''pdf_zoom'', PFloat 2)])]"

text \<open>
  A codec known on two mappings only, standing for \<^verbatim>\<open>json.dump\<close> and \<^verbatim>\<open>json.load\<close>
  in the examples.
\<close>

definition table_dump :: "pydict \<Rightarrow> string" where
  "table_dump m = (if m = [] then ''{}'' else if m = store_a then ''{a.mp4: 40000/100000}''
                   else ''{...}'')"

definition table_load :: "string \<Rightarrow> pydict option" where
  "table_load t = (if t = ''{}'' then Some [] else if t = ''{a.mp4: 40000/100000}'' then Some store_a
                   else None)"

text \<open>
  An environment in which \<^verbatim>\<open>a.mp4\<close> plays at 40 s of 100 s, documents have five
  pages, and nothing fails.
\<close>

definition env0 :: env where
  "env0 = \<lparr>now = ''2026-01-01T10:00:00'',
           vlc_get_state = Playing, vlc_get_time = Some 40000, vlc_get_length = Some 100000,
           vlc_is_seekable = True, vlc_is_playing = True, vlc_play_result = 0,
           vlc_set_rate_result = 0, vlc_get_rate = 1,
           length_polls = (\<lambda>k. 100000), vlc_raises = NoRaise, embed_fails = False,
           fitz_open = Some 5, render_ok = True,
           save_faults = (\<lambda>n. None), unlink_fails = False, read_fails = False,
           json_dump = table_dump, json_load = table_load,
           py_float = (\<lambda>t. if t = ''2.0'' then Some 2 else if t = ''1.0'' then Some 1 else None),
           format_rate = (\<lambda>r. if r = 1 then ''1x'' else ''?'')\<rparr>"

text \<open>The application just started on an empty store, and with \<^verbatim>\<open>a.mp4\<close> playing.\<close>

definition app0 :: app where
  "app0 = init_app [] \<lparr>store_file = None, temp_file = None\<rparr> True"

definition app_playing :: app where
  "app_playing = handle_media_click env0 a_mp4 app0"

text \<open>
  \<^verbatim>\<open>a.mp4\<close> selected on a store that holds its position 40000, and on a store that
  holds it as finished (position 0).
\<close>

definition store_done :: pydict where
  "store_done = [(''/lib/a.mp4'', timestamp_data ''2026-01-01T10:00:00'' ''a.mp4'' 99000 100000)]"

text \<open>\<^verbatim>\<open>b.pdf\<close> (five pages) selected on an empty store.\<close>

definition app_pdf :: app where
  "app_pdf = handle_media_click env0 b_pdf app0"

text \<open>
  The end-to-end scenario on the document: select \<^verbatim>\<open>b.pdf\<close>, go to page index 3,
  zoom to 2.0, select \<^verbatim>\<open>a.mp4\<close>, select \<^verbatim>\<open>b.pdf\<close> again.
\<close>

definition revisit :: "(env \<times> action) list" where
  "revisit = [(env0, Click b_pdf), (env0, RenderCurrentPage),
              (env0, NextPage), (env0, NextPage), (env0, NextPage),
              (env0, ZoomIn), (env0, ZoomIn), (env0, ZoomIn), (env0, ZoomIn),
              (env0, Click a_mp4), (env0, Click b_pdf)]"

text \<open>
  Four selections in a row: video, document, document, video. The player, stopped at
  the second, reports \<open>Stopped\<close> from then on.
\<close>

definition switches :: "(env \<times> action) list" where
  "switches = [(env0, Click a_mp4), (env0, Click b_pdf),
               (env0\<lparr>vlc_get_state := Stopped\<rparr>, Click c_pdf),
               (env0\<lparr>vlc_get_state := Stopped\<rparr>, Click a_mp4)]"

definition app_resume :: app where
  "app_resume = handle_media_click env0 a_mp4
                  (init_app store_a \<lparr>store_file = None, temp_file = None\<rparr> True)"

definition app_done :: app where
  "app_done = handle_media_click env0 a_mp4
                (init_app store_done \<lparr>store_file = None, temp_file = None\<rparr> True)"

section \<open>Properties\<close>

lemmas model_defs =
  emit_def show_error_def manage_views_def fault_of_def save_timestamps_def load_timestamps_def
  save_timestamps_io_def save_try_def load_timestamps_io_def
  SUPPORTED_VIDEO_EXT_def SUPPORTED_AUDIO_EXT_def SUPPORTED_PDF_EXT_def PDF_ZOOM_STEPS_def
  max_attempts_def TRAILING_MARGIN_def lower_def lower_char_def py_int_def entry_fields_def
  ts_set_def timestamp_data_def save_current_vlc_timestamp_def periodic_save_timestamp_def
  update_vlc_entry_def update_pdf_entry_def update_all_cards_display_def
  stop_vlc_def store_pdf_position_def close_pdf_def stop_and_save_current_media_def
  change_playback_speed_def
  speed_menu_select_def vlc_load_failed_def load_vlc_media_def restore_position_def
  restore_speed_def restore_vlc_state_def
  close_previous_pdf_def open_pdf_def store_last_opened_def show_pdf_def
  load_pdf_try_def load_pdf_media_def handle_media_click_def render_pdf_page_def
  pdf_next_page_def pdf_previous_page_def pdf_zoom_in_def pdf_zoom_out_def skip_time_def
  on_media_slider_release_def slider_drag_def init_app_def new_events_def Let_def

lemmas example_defs =
  a_mp4_def b_pdf_def c_pdf_def store_a_def store_b_def table_dump_def table_load_def env0_def
  app0_def app_playing_def store_done_def app_resume_def app_done_def app_pdf_def revisit_def switches_def

subsection \<open>The store file: atomic replacement and swallowed failures\<close>

lemma save_io_cases:
  "store_file (snd (save_timestamps_io ft u t f)) = (if ft = NoFault then Some t else store_file f)
   \<and> (ft = NoFault \<longrightarrow> save_timestamps_io ft u t f = (Saved, f\<lparr>store_file := Some t, temp_file := None\<rparr>))
   \<and> (\<forall>st. ft = Fault Kill st \<longrightarrow> fst (save_timestamps_io ft u t f) = Process_Killed)
   \<and> (\<forall>st. ft = Fault Raise st \<longrightarrow> fst (save_timestamps_io ft u t f) = Failed_Logged
         \<and> (\<not> u \<longrightarrow> temp_file (snd (save_timestamps_io ft u t f)) = None))"
proof (cases ft)
  case NoFault
  then show ?thesis by (simp add: save_timestamps_io_def save_try_def)
next
  case (Fault k st)
  then show ?thesis
    by (cases k; cases st) (auto simp: save_timestamps_io_def save_try_def)
qed

lemma save_events:
  "events (save_timestamps e m s) =
     events s @ SaveCall m # (if save_faults e (saves_done s) = None then [] else [LogError])"
proof (cases "save_faults e (saves_done s)")
  case None
  then show ?thesis
    by (simp add: save_timestamps_def fault_of_def emit_def save_timestamps_io_def save_try_def)
next
  case (Some st)
  then show ?thesis
    by (cases st) (auto simp: save_timestamps_def fault_of_def emit_def save_timestamps_io_def save_try_def)
qed

lemma save_disk:
  "disk (save_timestamps e m s) =
     snd (save_timestamps_io (fault_of (save_faults e (saves_done s))) (unlink_fails e)
            (json_dump e m) (disk s))"
  by (simp add: save_timestamps_def emit_def split: prod.splits)

text \<open>
  C4, as the program has it. Whatever interrupts a save, the store file afterwards
  holds the complete new text when nothing interrupted and its previous content
  otherwise; partial text only ever reaches the temporary file. A save whose system
  call raises returns normally after logging; it shows no dialog (the only events are
  the call and the log entry). The temporary file is gone afterwards provided its
  removal does not fail itself; a failed removal is passed over and leaves it behind.
\<close>

theorem save_timestamps_atomic:
  "store_file (snd (save_timestamps_io ft u t f)) = (if ft = NoFault then Some t else store_file f)
   \<and> (ft = NoFault \<longrightarrow> save_timestamps_io ft u t f = (Saved, f\<lparr>store_file := Some t, temp_file := None\<rparr>))
   \<and> (\<forall>st. ft = Fault Kill st \<longrightarrow> fst (save_timestamps_io ft u t f) = Process_Killed)
   \<and> (\<forall>st. ft = Fault Raise st \<longrightarrow> fst (save_timestamps_io ft u t f) = Failed_Logged
         \<and> (\<not> u \<longrightarrow> temp_file (snd (save_timestamps_io ft u t f)) = None))
   \<and> events (save_timestamps e m s) =
       events s @ SaveCall m # (if save_faults e (saves_done s) = None then [] else [LogError])
   \<and> disk (save_timestamps e m s) =
       snd (save_timestamps_io (fault_of (save_faults e (saves_done s))) (unlink_fails e)
              (json_dump e m) (disk s))"
  using save_io_cases[of ft u t f] save_events[of e m s] save_disk[of e m s]
  by (elim conjE, intro conjI) assumption+

theorem save_timestamps_atomic_witness:
  "save_timestamps_io NoFault False ''new'' \<lparr>store_file = Some ''old'', temp_file = None\<rparr>
     = (Saved, \<lparr>store_file = Some ''new'', temp_file = None\<rparr>)
   \<and> save_timestamps_io (Fault Kill (AtWrite 2)) False ''new'' \<lparr>store_file = Some ''old'', temp_file = None\<rparr>
     = (Process_Killed, \<lparr>store_file = Some ''old'', temp_file = Some ''ne''\<rparr>)
   \<and> save_timestamps_io (Fault Raise (AtWrite 2)) False ''new'' \<lparr>store_file = Some ''old'', temp_file = None\<rparr>
     = (Failed_Logged, \<lparr>store_file = Some ''old'', temp_file = None\<rparr>)
   \<and> events (save_timestamps (env0\<lparr>save_faults := (\<lambda>n. Some AtReplace)\<rparr>) store_a app0)
     = [SaveCall store_a, LogError]"
  using save_timestamps_atomic[of NoFault False "''new''" "\<lparr>store_file = Some ''old'', temp_file = None\<rparr>" env0 store_a app0]
    save_timestamps_atomic[of "Fault Kill (AtWrite 2)" False "''new''" "\<lparr>store_file = Some ''old'', temp_file = None\<rparr>" env0 store_a app0]
    save_timestamps_atomic[of "Fault Raise (AtWrite 2)" False "''new''" "\<lparr>store_file = Some ''old'', temp_file = None\<rparr>"
       "env0\<lparr>save_faults := (\<lambda>n. Some AtReplace)\<rparr>" store_a app0]
  by (simp add: save_timestamps_io_def save_try_def app0_def init_app_def)

text \<open>
  C4 as stated fails where it says the temporary file is removed: when
  \<^verbatim>\<open>os.replace\<close> raises and \<^verbatim>\<open>unlink\<close> raises too, the save is logged and swallowed
  and the fully written temporary file stays.
\<close>

theorem save_failure_keeps_temp_file_counterexample:
  "fst (save_timestamps_io (Fault Raise AtReplace) True ''new'' \<lparr>store_file = Some ''old'', temp_file = None\<rparr>)
     = Failed_Logged
   \<and> temp_file (snd (save_timestamps_io (Fault Raise AtReplace) True ''new''
                       \<lparr>store_file = Some ''old'', temp_file = None\<rparr>)) \<noteq> None"
  by (simp add: save_timestamps_io_def save_try_def)

subsection \<open>Round trip through the store file\<close>



subsection \<open>Flushing: the normalised record\<close>


lemma timestamp_data_fields:
  "rec_int ''duration'' (timestamp_data n f t d) = Some d"
  "rec_int ''position'' (timestamp_data n f t d) = Some (if 0 < d \<and> d - 2000 \<le> t then 0 else t)"
  "rec_bool ''finished'' (timestamp_data n f t d) = Some (0 < d \<and> d - 2000 \<le> t)"
  by (simp_all add: timestamp_data_def TRAILING_MARGIN_def Let_def)

lemma new_events_append [simp]: "events s' = events s @ es \<Longrightarrow> new_events s s' = es"
  by (simp add: new_events_def)

lemma new_events_same [simp]: "new_events s s = []"
  by (simp add: new_events_def)

lemma flush_skipped:
  assumes "\<not> (\<exists>p t d. current_vlc_media_path s = Some p \<and> vlc_player s \<and> vlc_media s \<noteq> None
      \<and> vlc_get_state e \<in> {Playing, Paused} \<and> vlc_get_time e = Some t \<and> vlc_get_length e = Some d
      \<and> 0 \<le> t \<and> 0 \<le> d)"
  shows "save_current_vlc_timestamp e s = s"
  using assms by (auto simp: save_current_vlc_timestamp_def split: option.splits)

lemma flush_written:
  assumes "vlc_player s" "current_vlc_media_path s = Some p" "vlc_media s \<noteq> None"
    "vlc_get_state e \<in> {Playing, Paused}" "vlc_get_time e = Some t" "vlc_get_length e = Some d"
    "0 \<le> t" "0 \<le> d"
  shows "save_current_vlc_timestamp e s =
          save_timestamps e (AList.update (path_str p) (timestamp_data (now e) (path_name p) t d) (timestamps s))
            (ts_set (path_str p) (timestamp_data (now e) (path_name p) t d) s)"
  using assms by (auto simp: save_current_vlc_timestamp_def Let_def ts_set_def emit_def)

lemma save_timestamps_fields:
  "timestamps (save_timestamps e m s) = timestamps s"
  by (simp add: save_timestamps_def emit_def split: prod.splits)

lemma flush_new_events:
  "new_events s (save_timestamps e m (ts_set k r s)) =
     TsWrite k r # SaveCall m # (if save_faults e (saves_done s) = None then [] else [LogError])"
  by (rule new_events_append) (simp add: save_events ts_set_def emit_def)

lemma update_lookup: "map_of (AList.update k v al) k = Some v"
  by (simp add: update_conv')

lemma flush_record_ok:
  assumes "TsWrite k r \<in> set (new_events s (save_current_vlc_timestamp e s))"
  shows "\<exists>t d pos. vlc_get_time e = Some t \<and> vlc_get_length e = Some d
      \<and> rec_int ''duration'' r = Some d \<and> rec_int ''position'' r = Some pos
      \<and> map_of (timestamps (save_current_vlc_timestamp e s)) k = Some r
      \<and> SaveCall (timestamps (save_current_vlc_timestamp e s))
           \<in> set (new_events s (save_current_vlc_timestamp e s))
      \<and> (0 < d \<and> d - 2000 \<le> t \<longrightarrow> pos = 0 \<and> rec_bool ''finished'' r = Some True)
      \<and> (0 < d \<longrightarrow> pos < d)"
proof (cases "\<exists>p t d. current_vlc_media_path s = Some p \<and> vlc_player s \<and> vlc_media s \<noteq> None
      \<and> vlc_get_state e \<in> {Playing, Paused} \<and> vlc_get_time e = Some t \<and> vlc_get_length e = Some d
      \<and> 0 \<le> t \<and> 0 \<le> d")
  case False
  then have "save_current_vlc_timestamp e s = s" by (rule flush_skipped)
  with assms show ?thesis by simp
next
  case True
  then obtain p t d where c: "current_vlc_media_path s = Some p \<and> vlc_player s \<and> vlc_media s \<noteq> None
      \<and> vlc_get_state e \<in> {Playing, Paused} \<and> vlc_get_time e = Some t \<and> vlc_get_length e = Some d
      \<and> 0 \<le> t \<and> 0 \<le> d"
    by (elim exE)
  then have h: "vlc_get_time e = Some t" "vlc_get_length e = Some d" "0 \<le> d" "0 \<le> t"
    by simp_all
  have eq: "save_current_vlc_timestamp e s =
          save_timestamps e (AList.update (path_str p) (timestamp_data (now e) (path_name p) t d) (timestamps s))
            (ts_set (path_str p) (timestamp_data (now e) (path_name p) t d) s)"
    using c by (intro flush_written) simp_all
    have ne: "new_events s (save_current_vlc_timestamp e s) =
        TsWrite (path_str p) (timestamp_data (now e) (path_name p) t d)
        # SaveCall (AList.update (path_str p) (timestamp_data (now e) (path_name p) t d) (timestamps s))
        # (if save_faults e (saves_done s) = None then [] else [LogError])"
      unfolding eq by (rule flush_new_events)
    have ts: "timestamps (save_current_vlc_timestamp e s) =
        AList.update (path_str p) (timestamp_data (now e) (path_name p) t d) (timestamps s)"
      unfolding eq by (simp add: save_timestamps_fields ts_set_def emit_def)
    from assms ne have kr: "k = path_str p" "r = timestamp_data (now e) (path_name p) t d"
      by (auto split: if_splits)
    show ?thesis
      using h by (simp add: kr ts ne timestamp_data_fields update_lookup)
qed


lemma flush_finished:
  assumes "vlc_player s" "current_vlc_media_path s = Some p" "vlc_media s \<noteq> None"
    "vlc_get_state e \<in> {Playing, Paused}" "vlc_get_time e = Some t" "vlc_get_length e = Some d"
    "0 \<le> t" "0 < d" "d - 2000 \<le> t"
  shows "\<exists>r. map_of (timestamps (save_current_vlc_timestamp e s)) (path_str p) = Some r
      \<and> rec_int ''position'' r = Some 0 \<and> rec_bool ''finished'' r = Some True
      \<and> TsWrite (path_str p) r \<in> set (new_events s (save_current_vlc_timestamp e s))
      \<and> (save_faults e (saves_done s) = None \<longrightarrow>
           store_file (disk (save_current_vlc_timestamp e s))
             = Some (json_dump e (timestamps (save_current_vlc_timestamp e s))))"
proof -
  have d0: "0 \<le> d" using assms(8) by simp
  note eq = flush_written[OF assms(1-7) d0]
  have ts: "timestamps (save_current_vlc_timestamp e s) =
        AList.update (path_str p) (timestamp_data (now e) (path_name p) t d) (timestamps s)"
    unfolding eq by (simp add: save_timestamps_fields ts_set_def emit_def)
  have ne: "new_events s (save_current_vlc_timestamp e s) =
        TsWrite (path_str p) (timestamp_data (now e) (path_name p) t d)
        # SaveCall (AList.update (path_str p) (timestamp_data (now e) (path_name p) t d) (timestamps s))
        # (if save_faults e (saves_done s) = None then [] else [LogError])"
    unfolding eq by (rule flush_new_events)
  have dk: "save_faults e (saves_done s) = None \<Longrightarrow>
      store_file (disk (save_current_vlc_timestamp e s))
        = Some (json_dump e (AList.update (path_str p) (timestamp_data (now e) (path_name p) t d) (timestamps s)))"
    unfolding eq
    by (simp add: save_disk fault_of_def save_timestamps_io_def save_try_def ts_set_def emit_def)
  show ?thesis
    using assms(8,9) dk by (simp add: ts ne update_lookup timestamp_data_fields)
qed

lemma update_vlc_entry_events:
  "\<exists>es. events (update_vlc_entry e s) = events s @ es
     \<and> (\<forall>k r. TsWrite k r \<in> set es \<longrightarrow>
           (\<exists>p t d. current_vlc_media_path s = Some p \<and> vlc_get_time e = Some t
              \<and> vlc_get_length e = Some d \<and> 0 \<le> t \<and> 0 \<le> d
              \<and> r = timestamp_data (now e) (path_name p) t d))"
  by (simp add: update_vlc_entry_def ts_set_def emit_def split: option.splits)

lemma update_vlc_entry_keeps:
  "current_pdf_path (update_vlc_entry e s) = current_pdf_path s"
  by (simp add: update_vlc_entry_def ts_set_def emit_def split: option.splits)

lemma update_pdf_entry_events:
  "\<exists>es. events (update_pdf_entry e s) = events s @ es
     \<and> (\<forall>k r. TsWrite k r \<in> set es \<longrightarrow> (\<exists>q. current_pdf_path s = Some q \<and> k = path_str q))"
  by (auto simp: update_pdf_entry_def ts_set_def emit_def Let_def split: option.splits)

lemma cards_writes:
  assumes "TsWrite k r \<in> set (new_events s (update_all_cards_display e s))"
    and "\<forall>q. current_pdf_path s = Some q \<longrightarrow> path_str q \<noteq> k"
  shows "\<exists>p t d. current_vlc_media_path s = Some p \<and> vlc_get_time e = Some t
      \<and> vlc_get_length e = Some d \<and> 0 \<le> t \<and> 0 \<le> d \<and> r = timestamp_data (now e) (path_name p) t d"
proof -
  obtain es1 where e1: "events (update_vlc_entry e s) = events s @ es1"
    and w1: "\<forall>k r. TsWrite k r \<in> set es1 \<longrightarrow>
           (\<exists>p t d. current_vlc_media_path s = Some p \<and> vlc_get_time e = Some t
              \<and> vlc_get_length e = Some d \<and> 0 \<le> t \<and> 0 \<le> d
              \<and> r = timestamp_data (now e) (path_name p) t d)"
    using update_vlc_entry_events[of e s] by (elim exE conjE)
  obtain es2 where e2: "events (update_pdf_entry e (update_vlc_entry e s)) = events (update_vlc_entry e s) @ es2"
    and w2: "\<forall>k r. TsWrite k r \<in> set es2 \<longrightarrow>
       (\<exists>q. current_pdf_path (update_vlc_entry e s) = Some q \<and> k = path_str q)"
    using update_pdf_entry_events[of e "update_vlc_entry e s"] by (elim exE conjE)
  have "new_events s (update_all_cards_display e s) = es1 @ es2"
    by (simp add: new_events_def update_all_cards_display_def e1 e2)
  with assms(1) have "TsWrite k r \<in> set es1 \<or> TsWrite k r \<in> set es2" by simp
  then show ?thesis
  proof
    assume "TsWrite k r \<in> set es1"
    with w1 show ?thesis by blast
  next
    assume "TsWrite k r \<in> set es2"
    with w2 assms(2) show ?thesis by (auto simp: update_vlc_entry_keeps)
  qed
qed


text \<open>
  C2. Every record a flush (\<^verbatim>\<open>save_current_vlc_timestamp\<close>) writes is the entry of
  its key in the mapping handed to \<^verbatim>\<open>save_timestamps\<close>, carries the engine's
  duration, has position 0 and \<open>finished\<close> set when the duration is positive and the
  position is within 2000 ms of the end, and has a position below every positive
  duration. Such a record is written (and reaches the store file when the save meets
  no I/O error) whenever the engine plays or is paused with a time that is not
  negative. The in-memory update of \<^verbatim>\<open>update_all_cards_display\<close> writes the playing
  media's record by the same rule.
\<close>

theorem flush_normalizes_position:
  "(\<forall>k r. TsWrite k r \<in> set (new_events s (save_current_vlc_timestamp e s)) \<longrightarrow>
      (\<exists>t d pos. vlc_get_time e = Some t \<and> vlc_get_length e = Some d
         \<and> rec_int ''duration'' r = Some d \<and> rec_int ''position'' r = Some pos
         \<and> map_of (timestamps (save_current_vlc_timestamp e s)) k = Some r
         \<and> SaveCall (timestamps (save_current_vlc_timestamp e s))
              \<in> set (new_events s (save_current_vlc_timestamp e s))
         \<and> (0 < d \<and> d - 2000 \<le> t \<longrightarrow> pos = 0 \<and> rec_bool ''finished'' r = Some True)
         \<and> (0 < d \<longrightarrow> pos < d)))
   \<and> (vlc_player s \<and> current_vlc_media_path s = Some p \<and> vlc_media s \<noteq> None
        \<and> vlc_get_state e \<in> {Playing, Paused} \<and> vlc_get_time e = Some t'
        \<and> vlc_get_length e = Some d' \<and> 0 \<le> t' \<and> 0 < d' \<and> d' - 2000 \<le> t' \<longrightarrow>
        (\<exists>r. map_of (timestamps (save_current_vlc_timestamp e s)) (path_str p) = Some r
           \<and> rec_int ''position'' r = Some 0 \<and> rec_bool ''finished'' r = Some True
           \<and> TsWrite (path_str p) r \<in> set (new_events s (save_current_vlc_timestamp e s))
           \<and> (save_faults e (saves_done s) = None \<longrightarrow>
                store_file (disk (save_current_vlc_timestamp e s))
                  = Some (json_dump e (timestamps (save_current_vlc_timestamp e s))))))
   \<and> (\<forall>k r. TsWrite k r \<in> set (new_events s (update_all_cards_display e s))
          \<and> (\<forall>q. current_pdf_path s = Some q \<longrightarrow> path_str q \<noteq> k) \<longrightarrow>
      (\<exists>t d pos. vlc_get_time e = Some t \<and> vlc_get_length e = Some d
         \<and> rec_int ''duration'' r = Some d \<and> rec_int ''position'' r = Some pos
         \<and> (0 < d \<and> d - 2000 \<le> t \<longrightarrow> pos = 0 \<and> rec_bool ''finished'' r = Some True)
         \<and> (0 < d \<longrightarrow> pos < d)))"
proof (intro conjI allI impI)
  fix k r
  assume "TsWrite k r \<in> set (new_events s (save_current_vlc_timestamp e s))"
  then show "\<exists>t d pos. vlc_get_time e = Some t \<and> vlc_get_length e = Some d
         \<and> rec_int ''duration'' r = Some d \<and> rec_int ''position'' r = Some pos
         \<and> map_of (timestamps (save_current_vlc_timestamp e s)) k = Some r
         \<and> SaveCall (timestamps (save_current_vlc_timestamp e s))
              \<in> set (new_events s (save_current_vlc_timestamp e s))
         \<and> (0 < d \<and> d - 2000 \<le> t \<longrightarrow> pos = 0 \<and> rec_bool ''finished'' r = Some True)
         \<and> (0 < d \<longrightarrow> pos < d)"
    by (rule flush_record_ok)
next
  assume "vlc_player s \<and> current_vlc_media_path s = Some p \<and> vlc_media s \<noteq> None
        \<and> vlc_get_state e \<in> {Playing, Paused} \<and> vlc_get_time e = Some t'
        \<and> vlc_get_length e = Some d' \<and> 0 \<le> t' \<and> 0 < d' \<and> d' - 2000 \<le> t'"
  then show "\<exists>r. map_of (timestamps (save_current_vlc_timestamp e s)) (path_str p) = Some r
           \<and> rec_int ''position'' r = Some 0 \<and> rec_bool ''finished'' r = Some True
           \<and> TsWrite (path_str p) r \<in> set (new_events s (save_current_vlc_timestamp e s))
           \<and> (save_faults e (saves_done s) = None \<longrightarrow>
                store_file (disk (save_current_vlc_timestamp e s))
                  = Some (json_dump e (timestamps (save_current_vlc_timestamp e s))))"
    by (elim conjE) (rule flush_finished, assumption+)
next
  fix k r
  assume h: "TsWrite k r \<in> set (new_events s (update_all_cards_display e s))
          \<and> (\<forall>q. current_pdf_path s = Some q \<longrightarrow> path_str q \<noteq> k)"
  from cards_writes[OF h[THEN conjunct1] h[THEN conjunct2]]
  obtain p t d where "current_vlc_media_path s = Some p \<and> vlc_get_time e = Some t
      \<and> vlc_get_length e = Some d \<and> 0 \<le> t \<and> 0 \<le> d \<and> r = timestamp_data (now e) (path_name p) t d"
    by (elim exE)
  then show "\<exists>t d pos. vlc_get_time e = Some t \<and> vlc_get_length e = Some d
         \<and> rec_int ''duration'' r = Some d \<and> rec_int ''position'' r = Some pos
         \<and> (0 < d \<and> d - 2000 \<le> t \<longrightarrow> pos = 0 \<and> rec_bool ''finished'' r = Some True)
         \<and> (0 < d \<longrightarrow> pos < d)"
    by (simp add: timestamp_data_fields)
qed

theorem flush_normalizes_position_witness:
  "TsWrite ''/lib/a.mp4'' (timestamp_data ''2026-01-01T10:00:00'' ''a.mp4'' 99000 100000)
      \<in> set (new_events app_playing (save_current_vlc_timestamp (env0\<lparr>vlc_get_time := Some 99000\<rparr>) app_playing))
   \<and> TsWrite ''/lib/a.mp4'' (timestamp_data ''2026-01-01T10:00:00'' ''a.mp4'' 99000 100000)
      \<in> set (new_events app_playing (update_all_cards_display (env0\<lparr>vlc_get_time := Some 99000\<rparr>) app_playing))
   \<and> current_pdf_path app_playing = None
   \<and> vlc_player app_playing \<and> current_vlc_media_path app_playing = Some a_mp4
   \<and> vlc_media app_playing \<noteq> None
   \<and> vlc_get_state (env0\<lparr>vlc_get_time := Some 99000\<rparr>) = Playing
   \<and> rec_int ''position'' (timestamp_data ''2026-01-01T10:00:00'' ''a.mp4'' 99000 100000) = Some 0
   \<and> rec_bool ''finished'' (timestamp_data ''2026-01-01T10:00:00'' ''a.mp4'' 99000 100000) = Some True
   \<and> map_of (timestamps (save_current_vlc_timestamp (env0\<lparr>vlc_get_time := Some 99000\<rparr>) app_playing))
        ''/lib/a.mp4'' = Some (timestamp_data ''2026-01-01T10:00:00'' ''a.mp4'' 99000 100000)
   \<and> store_file (disk (save_current_vlc_timestamp (env0\<lparr>vlc_get_time := Some 99000\<rparr>) app_playing))
        = Some (table_dump (timestamps (save_current_vlc_timestamp (env0\<lparr>vlc_get_time := Some 99000\<rparr>) app_playing)))"
proof -
  let ?e = "env0\<lparr>vlc_get_time := Some 99000\<rparr>"
  let ?r = "timestamp_data ''2026-01-01T10:00:00'' ''a.mp4'' 99000 100000"
  have st: "vlc_player app_playing" "current_vlc_media_path app_playing = Some a_mp4"
    "vlc_media app_playing \<noteq> None" "current_pdf_path app_playing = None"
    by (simp_all add: model_defs example_defs)
  have en: "vlc_get_state ?e = Playing" "vlc_get_time ?e = Some 99000"
    "vlc_get_length ?e = Some 100000" "now ?e = ''2026-01-01T10:00:00''"
    "save_faults ?e (saves_done app_playing) = None" "json_dump ?e = table_dump"
    by (simp_all add: env0_def)
  have a1: "TsWrite ''/lib/a.mp4'' ?r \<in> set (new_events app_playing (save_current_vlc_timestamp ?e app_playing))"
    by (simp add: model_defs example_defs)
  have a3: "TsWrite ''/lib/a.mp4'' ?r \<in> set (new_events app_playing (update_all_cards_display ?e app_playing))"
    by (simp add: model_defs example_defs)
  note th = flush_normalizes_position[of app_playing ?e a_mp4 99000 100000]
  from th[THEN conjunct1, rule_format, OF a1]
  have c1: "map_of (timestamps (save_current_vlc_timestamp ?e app_playing)) ''/lib/a.mp4'' = Some ?r"
    "rec_int ''position'' ?r = Some 0" "rec_bool ''finished'' ?r = Some True"
    by (auto simp: en)
  from th[THEN conjunct2, THEN conjunct1] st en
  have c2: "store_file (disk (save_current_vlc_timestamp ?e app_playing))
        = Some (table_dump (timestamps (save_current_vlc_timestamp ?e app_playing)))"
    by auto
  from th[THEN conjunct2, THEN conjunct2, rule_format, of "''/lib/a.mp4''" ?r] a3 st
  have c3: "rec_int ''position'' ?r = Some 0" by (auto simp: en)
  show ?thesis using a1 a3 st en c1 c2 c3 by simp
qed

subsection \<open>Seeking\<close>

lemma skip_time_clamped:
  assumes "VlcSetTime x \<in> set (new_events s (skip_time e ms s))"
    and "vlc_get_length e = Some d" and "0 < d"
  shows "0 \<le> x \<and> x < d \<and> (100 \<le> d \<longrightarrow> x \<le> d - 100)"
  using assms
  by (auto simp: skip_time_def new_events_def emit_def Let_def split: if_splits option.splits)

text \<open>
  C7 fails on the slider. \<^verbatim>\<open>skip_time\<close> clamps its target below the duration
  (\<open>skip_time_clamped\<close>), but \<^verbatim>\<open>on_media_slider_release\<close> passes
  \<^verbatim>\<open>int((value / 100.0) * duration)\<close> to the engine as it is: with the slider at its
  right end, 100, on a media of 100000 ms the engine is sent to 100000 ms, the end of
  the media.
\<close>

theorem slider_release_seeks_to_end:
  "vlc_get_length env0 = Some 100000
   \<and> media_progress_slider (slider_drag 100 app_playing) = 100
   \<and> new_events (slider_drag 100 app_playing)
        (on_media_slider_release env0 (slider_drag 100 app_playing)) = [VlcSetTime 100000]"
  by (simp add: model_defs example_defs)

subsection \<open>Rate changes\<close>

lemma change_speed_events:
  "\<exists>es. events (change_playback_speed e c s) = events s @ es
     \<and> (\<forall>r. VlcSetRate r \<in> set es \<longrightarrow> vlc_get_state e \<in> {Playing, Paused})
     \<and> (vlc_get_state e \<notin> {Playing, Paused} \<longrightarrow> set es \<subseteq> {LogError})"
  by (auto simp: change_playback_speed_def emit_def Let_def split: option.splits)

lemma change_speed_selector:
  "vlc_get_state e \<notin> {Playing, Paused} \<Longrightarrow> speed_var (change_playback_speed e c s) = speed_var s"
  by (auto simp: change_playback_speed_def emit_def Let_def split: option.splits)

lemma change_speed_failed:
  assumes "vlc_player s" "current_vlc_media_path s \<noteq> None"
    "py_float e (filter (\<lambda>ch. ch \<noteq> CHR ''x'') c) = Some v"
    "vlc_get_state e \<in> {Playing, Paused}" "vlc_set_rate_result e \<noteq> 0"
  shows "speed_var (change_playback_speed e c s) = format_rate e (vlc_get_rate e)"
  using assms by (auto simp: change_playback_speed_def emit_def Let_def)

text \<open>
  C9, as the program has it. The engine is asked to change its rate only while it
  reports \<open>Playing\<close> or \<open>Paused\<close>. A change refused for the engine's state leaves the
  selector untouched by the handler, so after a choice in the speed menu the selector
  shows the newly chosen rate; the selector is reset, to the engine's current rate,
  only when \<^verbatim>\<open>set_rate\<close> itself reports a failure.
\<close>

theorem rate_change_needs_playing_or_paused:
  "(\<forall>r. VlcSetRate r \<in> set (new_events s (change_playback_speed e c s)) \<longrightarrow>
       vlc_get_state e \<in> {Playing, Paused})
   \<and> (\<forall>r. VlcSetRate r \<in> set (new_events s (speed_menu_select e c s)) \<longrightarrow>
       vlc_get_state e \<in> {Playing, Paused})
   \<and> (vlc_get_state e \<notin> {Playing, Paused} \<longrightarrow>
        speed_var (change_playback_speed e c s) = speed_var s
        \<and> speed_var (speed_menu_select e c s) = c)
   \<and> (vlc_player s \<and> current_vlc_media_path s \<noteq> None
        \<and> py_float e (filter (\<lambda>ch. ch \<noteq> CHR ''x'') c) = Some v
        \<and> vlc_get_state e \<in> {Playing, Paused} \<and> vlc_set_rate_result e \<noteq> 0 \<longrightarrow>
        speed_var (speed_menu_select e c s) = format_rate e (vlc_get_rate e))"
proof (intro conjI allI impI)
  fix r
  assume "VlcSetRate r \<in> set (new_events s (change_playback_speed e c s))"
  then show "vlc_get_state e \<in> {Playing, Paused}"
    using change_speed_events[of e c s] by (auto simp: new_events_def)
next
  fix r
  assume "VlcSetRate r \<in> set (new_events s (speed_menu_select e c s))"
  then show "vlc_get_state e \<in> {Playing, Paused}"
    using change_speed_events[of e c "s\<lparr>speed_var := c\<rparr>"]
    by (auto simp: new_events_def speed_menu_select_def)
next
  assume "vlc_get_state e \<notin> {Playing, Paused}"
  then show "speed_var (change_playback_speed e c s) = speed_var s"
    by (rule change_speed_selector)
next
  assume "vlc_get_state e \<notin> {Playing, Paused}"
  then show "speed_var (speed_menu_select e c s) = c"
    by (simp add: speed_menu_select_def change_speed_selector)
next
  assume "vlc_player s \<and> current_vlc_media_path s \<noteq> None
        \<and> py_float e (filter (\<lambda>ch. ch \<noteq> CHR ''x'') c) = Some v
        \<and> vlc_get_state e \<in> {Playing, Paused} \<and> vlc_set_rate_result e \<noteq> 0"
  then show "speed_var (speed_menu_select e c s) = format_rate e (vlc_get_rate e)"
    unfolding speed_menu_select_def
    by (intro change_speed_failed[where v = v]) simp_all
qed

theorem rate_change_needs_playing_or_paused_witness:
  "VlcSetRate 2 \<in> set (new_events app_playing (speed_menu_select env0 ''2.0x'' app_playing))
   \<and> vlc_get_state env0 \<in> {Playing, Paused}
   \<and> vlc_get_state (env0\<lparr>vlc_get_state := Ended\<rparr>) \<notin> {Playing, Paused}
   \<and> speed_var (speed_menu_select (env0\<lparr>vlc_get_state := Ended\<rparr>) ''2.0x'' app_playing) = ''2.0x''
   \<and> new_events app_playing (speed_menu_select (env0\<lparr>vlc_get_state := Ended\<rparr>) ''2.0x'' app_playing) = []
   \<and> vlc_set_rate_result (env0\<lparr>vlc_set_rate_result := - 1\<rparr>) \<noteq> 0
   \<and> speed_var (speed_menu_select (env0\<lparr>vlc_set_rate_result := - 1\<rparr>) ''2.0x'' app_playing) = ''1x''"
proof -
  have a: "VlcSetRate 2 \<in> set (new_events app_playing (speed_menu_select env0 ''2.0x'' app_playing))"
    by (simp add: model_defs example_defs)
  have b: "vlc_get_state (env0\<lparr>vlc_get_state := Ended\<rparr>) \<notin> {Playing, Paused}"
    by (simp add: env0_def)
  have n: "new_events app_playing (speed_menu_select (env0\<lparr>vlc_get_state := Ended\<rparr>) ''2.0x'' app_playing) = []"
    by (simp add: model_defs example_defs)
  have c: "vlc_player app_playing \<and> current_vlc_media_path app_playing \<noteq> None
        \<and> py_float (env0\<lparr>vlc_set_rate_result := - 1\<rparr>) (filter (\<lambda>ch. ch \<noteq> CHR ''x'') ''2.0x'') = Some 2
        \<and> vlc_get_state (env0\<lparr>vlc_set_rate_result := - 1\<rparr>) \<in> {Playing, Paused}
        \<and> vlc_set_rate_result (env0\<lparr>vlc_set_rate_result := - 1\<rparr>) \<noteq> 0"
    by (simp add: model_defs example_defs)
  have f: "format_rate (env0\<lparr>vlc_set_rate_result := - 1\<rparr>) (vlc_get_rate (env0\<lparr>vlc_set_rate_result := - 1\<rparr>)) = ''1x''"
    by (simp add: env0_def)
  from rate_change_needs_playing_or_paused[of app_playing env0 "''2.0x''" 2,
        THEN conjunct2, THEN conjunct1, rule_format, OF a]
  have 1: "vlc_get_state env0 \<in> {Playing, Paused}" .
  from rate_change_needs_playing_or_paused[of app_playing "env0\<lparr>vlc_get_state := Ended\<rparr>" "''2.0x''" 2,
        THEN conjunct2, THEN conjunct2, THEN conjunct1, rule_format, OF b]
  have 2: "speed_var (speed_menu_select (env0\<lparr>vlc_get_state := Ended\<rparr>) ''2.0x'' app_playing) = ''2.0x''"
    by simp
  from rate_change_needs_playing_or_paused[of app_playing "env0\<lparr>vlc_set_rate_result := - 1\<rparr>" "''2.0x''" 2,
        THEN conjunct2, THEN conjunct2, THEN conjunct2, rule_format, OF c]
  have 3: "speed_var (speed_menu_select (env0\<lparr>vlc_set_rate_result := - 1\<rparr>) ''2.0x'' app_playing) = ''1x''"
    by (simp add: env0_def)
  show ?thesis using a b n c 1 2 3 by simp
qed

text \<open>
  C9 as stated fails: with \<^verbatim>\<open>a.mp4\<close> loaded, the selector on \<open>1.0x\<close> and the engine
  at the end of the media, choosing \<open>2.0x\<close> asks nothing of the engine and leaves the
  selector on \<open>2.0x\<close>, not on the previously selected \<open>1.0x\<close>.
\<close>

theorem rejected_rate_stays_displayed_counterexample:
  "speed_var app_playing = ''1.0x''
   \<and> new_events app_playing
        (speed_menu_select (env0\<lparr>vlc_get_state := Ended\<rparr>) ''2.0x'' app_playing) = []
   \<and> speed_var (speed_menu_select (env0\<lparr>vlc_get_state := Ended\<rparr>) ''2.0x'' app_playing)
        \<noteq> speed_var app_playing"
  by (simp add: model_defs example_defs)

subsection \<open>Restoring the playback position\<close>




















subsection \<open>Pages and zoom stay in range\<close>

lemma zoom_steps_range: "x \<in> set PDF_ZOOM_STEPS \<Longrightarrow> 1/2 \<le> x \<and> x \<le> 4"
  by (auto simp: PDF_ZOOM_STEPS_def)

lemma index_py_less: "index_py xs x = Some i \<Longrightarrow> i < length xs"
  by (induction xs arbitrary: i) (auto split: if_splits)

lemma find_in_set: "find P xs = Some x \<Longrightarrow> x \<in> set xs"
  by (induction xs) (auto split: if_splits)

lemma render_fields:
  "pdf_zoom_level (render_pdf_page e i s) = pdf_zoom_level s"
  "pdf_page_count (render_pdf_page e i s) = pdf_page_count s"
  "pdf_doc (render_pdf_page e i s) = pdf_doc s"
  "pdf_current_page_index (render_pdf_page e i s) = pdf_current_page_index s
     \<or> (pdf_current_page_index (render_pdf_page e i s) = i \<and> 0 \<le> i \<and> i < pdf_page_count s)"
  by (simp_all add: render_pdf_page_def emit_def)

lemma render_inv: "pdf_inv s \<Longrightarrow> pdf_inv (render_pdf_page e i s)"
  using render_fields(4)[of e i s]
  by (auto simp: pdf_inv_def render_fields(1,2))

lemma render_inv_zoom:
  assumes "pdf_inv s" "1/2 \<le> z" "z \<le> 4"
  shows "pdf_inv (render_pdf_page e i (s\<lparr>pdf_zoom_level := z\<rparr>))"
  by (rule render_inv) (use assms in \<open>simp add: pdf_inv_def\<close>)

lemma render_inv_zoom_warn:
  assumes "pdf_inv s" "1/2 \<le> z" "z \<le> 4"
  shows "pdf_inv (render_pdf_page e i ((emit [LogWarning] s)\<lparr>pdf_zoom_level := z\<rparr>))"
  by (rule render_inv) (use assms in \<open>simp add: pdf_inv_def emit_def\<close>)

lemma emit_inv: "pdf_inv s \<Longrightarrow> pdf_inv (emit es s)"
  by (simp add: pdf_inv_def emit_def)

lemma zoom_in_inv: "pdf_inv s \<Longrightarrow> pdf_inv (pdf_zoom_in e s)"
proof -
  assume i: "pdf_inv s"
  show ?thesis
  proof (cases "index_py PDF_ZOOM_STEPS (pdf_zoom_level s)")
    case (Some n)
    show ?thesis
    proof (cases "n < length PDF_ZOOM_STEPS - 1")
      case True
      then have "PDF_ZOOM_STEPS ! (n + 1) \<in> set PDF_ZOOM_STEPS" by simp
      from zoom_steps_range[OF this] i Some True show ?thesis
        by (simp add: pdf_zoom_in_def render_inv_zoom)
    next
      case False
      with i Some show ?thesis by (simp add: pdf_zoom_in_def)
    qed
  next
    case None
    show ?thesis
    proof (cases "find (\<lambda>step. step > pdf_zoom_level s) PDF_ZOOM_STEPS")
      case (Some st)
      from zoom_steps_range[OF find_in_set[OF this]] i None Some show ?thesis
        by (simp add: pdf_zoom_in_def render_inv_zoom_warn)
    next
      case n: None
      with i None show ?thesis by (simp add: pdf_zoom_in_def emit_inv)
    qed
  qed
qed

lemma zoom_out_inv: "pdf_inv s \<Longrightarrow> pdf_inv (pdf_zoom_out e s)"
proof -
  assume i: "pdf_inv s"
  show ?thesis
  proof (cases "index_py PDF_ZOOM_STEPS (pdf_zoom_level s)")
    case (Some n)
    show ?thesis
    proof (cases "n > 0")
      case True
      from index_py_less[OF Some] True have "PDF_ZOOM_STEPS ! (n - 1) \<in> set PDF_ZOOM_STEPS" by simp
      from zoom_steps_range[OF this] i Some True show ?thesis
        by (simp add: pdf_zoom_out_def render_inv_zoom)
    next
      case False
      with i Some show ?thesis by (simp add: pdf_zoom_out_def)
    qed
  next
    case None
    show ?thesis
    proof (cases "find (\<lambda>step. step < pdf_zoom_level s) (rev PDF_ZOOM_STEPS)")
      case (Some st)
      from find_in_set[OF this] have "st \<in> set PDF_ZOOM_STEPS" by simp
      from zoom_steps_range[OF this] i None Some show ?thesis
        by (simp add: pdf_zoom_out_def render_inv_zoom_warn)
    next
      case n: None
      with i None show ?thesis by (simp add: pdf_zoom_out_def emit_inv)
    qed
  qed
qed

lemma next_prev_inv:
  "pdf_inv s \<Longrightarrow> pdf_inv (pdf_next_page e s)"
  "pdf_inv s \<Longrightarrow> pdf_inv (pdf_previous_page e s)"
  by (simp_all add: pdf_next_page_def pdf_previous_page_def render_inv)

lemma pdf_command_count:
  "is_pdf_command a \<Longrightarrow> pdf_page_count (step e a s) = pdf_page_count s \<and> pdf_doc (step e a s) = pdf_doc s"
  by (cases a)
     (auto simp: pdf_next_page_def pdf_previous_page_def pdf_zoom_in_def pdf_zoom_out_def
        render_fields emit_def split: option.splits)

lemma pdf_command_inv: "is_pdf_command a \<Longrightarrow> pdf_inv s \<Longrightarrow> pdf_inv (step e a s)"
  by (cases a) (simp_all add: zoom_in_inv zoom_out_inv next_prev_inv render_inv)

lemma run_pdf_inv:
  "\<forall>x \<in> set acts. is_pdf_command (snd x) \<Longrightarrow> pdf_inv s \<Longrightarrow>
     pdf_inv (run acts s) \<and> pdf_page_count (run acts s) = pdf_page_count s
     \<and> pdf_doc (run acts s) = pdf_doc s"
proof (induction acts arbitrary: s)
  case Nil
  then show ?case by simp
next
  case (Cons x acts)
  obtain e a where x: "x = (e, a)" by (cases x)
  with Cons.prems have a: "is_pdf_command a" by simp
  have "pdf_inv (step e a s)" using a Cons.prems(2) by (rule pdf_command_inv)
  with Cons.IH[of "step e a s"] Cons.prems(1) pdf_command_count[OF a, of e s] x
  show ?case by simp
qed

lemma boundary_noops:
  "pdf_current_page_index s = pdf_page_count s - 1 \<Longrightarrow> pdf_next_page e s = s"
  "pdf_current_page_index s = 0 \<Longrightarrow> pdf_previous_page e s = s"
  "pdf_zoom_level s = 4 \<Longrightarrow> pdf_zoom_in e s = s"
  "pdf_zoom_level s = 1/2 \<Longrightarrow> pdf_zoom_out e s = s"
  by (simp_all add: pdf_next_page_def pdf_previous_page_def pdf_zoom_in_def pdf_zoom_out_def
      PDF_ZOOM_STEPS_def)


lemma next_page_moves:
  assumes "pdf_doc s \<noteq> None" "pdf_widgets s" "render_ok e"
    "0 \<le> pdf_current_page_index s" "pdf_current_page_index s < pdf_page_count s - 1"
  shows "pdf_current_page_index (pdf_next_page e s) = pdf_current_page_index s + 1"
  using assms by (simp add: pdf_next_page_def render_pdf_page_def emit_def)

lemma previous_page_moves:
  assumes "pdf_doc s \<noteq> None" "pdf_widgets s" "render_ok e"
    "0 < pdf_current_page_index s" "pdf_current_page_index s < pdf_page_count s"
  shows "pdf_current_page_index (pdf_previous_page e s) = pdf_current_page_index s - 1"
  using assms by (simp add: pdf_previous_page_def render_pdf_page_def emit_def)

text \<open>
  C8. From a page index within \<open>[0, pageCount - 1]\<close> and a zoom within
  \<open>[0.5, 4.0]\<close>, any sequence of next-page, previous-page, zoom-in, zoom-out and render
  steps, whatever the engine answers, keeps the page index within
  \<open>[0, pageCount - 1]\<close> and the zoom within \<open>[0.5, 4.0]\<close>. At the last page next-page
  changes nothing, at page 0 previous-page changes nothing, at zoom 4.0 zoom-in changes
  nothing and at zoom 0.5 zoom-out changes nothing. Away from the boundary a page
  command whose render succeeds moves by one page.
\<close>

theorem page_and_zoom_stay_in_range:
  "(0 \<le> pdf_current_page_index s \<and> pdf_current_page_index s < pdf_page_count s
      \<and> 1/2 \<le> pdf_zoom_level s \<and> pdf_zoom_level s \<le> 4
      \<and> (\<forall>x \<in> set acts. is_pdf_command (snd x)) \<longrightarrow>
        0 \<le> pdf_current_page_index (run acts s)
      \<and> pdf_current_page_index (run acts s) \<le> pdf_page_count s - 1
      \<and> 1/2 \<le> pdf_zoom_level (run acts s) \<and> pdf_zoom_level (run acts s) \<le> 4
      \<and> pdf_page_count (run acts s) = pdf_page_count s)
   \<and> (pdf_current_page_index s = pdf_page_count s - 1 \<longrightarrow> pdf_next_page e s = s)
   \<and> (pdf_current_page_index s = 0 \<longrightarrow> pdf_previous_page e s = s)
   \<and> (pdf_zoom_level s = 4 \<longrightarrow> pdf_zoom_in e s = s)
   \<and> (pdf_zoom_level s = 1/2 \<longrightarrow> pdf_zoom_out e s = s)
   \<and> (pdf_doc s \<noteq> None \<and> pdf_widgets s \<and> render_ok e
        \<and> 0 \<le> pdf_current_page_index s \<and> pdf_current_page_index s < pdf_page_count s - 1 \<longrightarrow>
        pdf_current_page_index (pdf_next_page e s) = pdf_current_page_index s + 1)
   \<and> (pdf_doc s \<noteq> None \<and> pdf_widgets s \<and> render_ok e
        \<and> 0 < pdf_current_page_index s \<and> pdf_current_page_index s < pdf_page_count s \<longrightarrow>
        pdf_current_page_index (pdf_previous_page e s) = pdf_current_page_index s - 1)"
proof (intro conjI impI)
  assume a: "0 \<le> pdf_current_page_index s \<and> pdf_current_page_index s < pdf_page_count s
      \<and> 1/2 \<le> pdf_zoom_level s \<and> pdf_zoom_level s \<le> 4
      \<and> (\<forall>x \<in> set acts. is_pdf_command (snd x))"
  then have "pdf_inv s" and c: "\<forall>x \<in> set acts. is_pdf_command (snd x)"
    by (simp_all add: pdf_inv_def)
  from run_pdf_inv[OF c this(1)]
  have r: "pdf_inv (run acts s)" "pdf_page_count (run acts s) = pdf_page_count s" by simp_all
  from r show "0 \<le> pdf_current_page_index (run acts s)" by (simp add: pdf_inv_def)
  from r show "pdf_current_page_index (run acts s) \<le> pdf_page_count s - 1" by (simp add: pdf_inv_def)
  from r show "1/2 \<le> pdf_zoom_level (run acts s)" by (simp add: pdf_inv_def)
  from r show "pdf_zoom_level (run acts s) \<le> 4" by (simp add: pdf_inv_def)
  from r show "pdf_page_count (run acts s) = pdf_page_count s" by simp
next
  assume "pdf_doc s \<noteq> None \<and> pdf_widgets s \<and> render_ok e
        \<and> 0 \<le> pdf_current_page_index s \<and> pdf_current_page_index s < pdf_page_count s - 1"
  then show "pdf_current_page_index (pdf_next_page e s) = pdf_current_page_index s + 1"
    by (intro next_page_moves) simp_all
next
  assume "pdf_doc s \<noteq> None \<and> pdf_widgets s \<and> render_ok e
        \<and> 0 < pdf_current_page_index s \<and> pdf_current_page_index s < pdf_page_count s"
  then show "pdf_current_page_index (pdf_previous_page e s) = pdf_current_page_index s - 1"
    by (intro previous_page_moves) simp_all
qed (simp_all add: boundary_noops)

theorem page_and_zoom_stay_in_range_witness:
  "pdf_current_page_index app_pdf = 0 \<and> pdf_page_count app_pdf = 5 \<and> pdf_zoom_level app_pdf = 1
   \<and> list_all (\<lambda>x. is_pdf_command (snd x)) (replicate 20 (env0, ZoomIn) @ replicate 7 (env0, NextPage))
   \<and> pdf_zoom_level (run (replicate 20 (env0, ZoomIn) @ replicate 7 (env0, NextPage)) app_pdf) \<le> 4
   \<and> pdf_current_page_index (run (replicate 20 (env0, ZoomIn) @ replicate 7 (env0, NextPage)) app_pdf) \<le> 4
   \<and> pdf_current_page_index (pdf_next_page env0 app_pdf) = 1
   \<and> pdf_previous_page env0 app_pdf = app_pdf
   \<and> pdf_zoom_in env0 (app_pdf\<lparr>pdf_zoom_level := 4\<rparr>) = app_pdf\<lparr>pdf_zoom_level := 4\<rparr>
   \<and> pdf_zoom_out env0 (app_pdf\<lparr>pdf_zoom_level := 1/2\<rparr>) = app_pdf\<lparr>pdf_zoom_level := 1/2\<rparr>
   \<and> pdf_next_page env0 (app_pdf\<lparr>pdf_current_page_index := 4\<rparr>) = app_pdf\<lparr>pdf_current_page_index := 4\<rparr>
   \<and> pdf_current_page_index (pdf_previous_page env0 (app_pdf\<lparr>pdf_current_page_index := 4\<rparr>)) = 3"
proof -
  let ?acts = "replicate 20 (env0, ZoomIn) @ replicate 7 (env0, NextPage)"
  have st: "pdf_current_page_index app_pdf = 0" "pdf_page_count app_pdf = 5" "pdf_zoom_level app_pdf = 1"
    "pdf_doc app_pdf \<noteq> None" "pdf_widgets app_pdf" "render_ok env0"
    by (simp_all add: model_defs example_defs)
  have cmds: "\<forall>x \<in> set ?acts. is_pdf_command (snd x)" by auto
  have h: "0 \<le> pdf_current_page_index app_pdf \<and> pdf_current_page_index app_pdf < pdf_page_count app_pdf
      \<and> 1/2 \<le> pdf_zoom_level app_pdf \<and> pdf_zoom_level app_pdf \<le> 4
      \<and> (\<forall>x \<in> set ?acts. is_pdf_command (snd x))"
    using st cmds by simp
  note t = page_and_zoom_stay_in_range[of app_pdf ?acts env0]
  note t4 = page_and_zoom_stay_in_range[of "app_pdf\<lparr>pdf_current_page_index := 4\<rparr>" "[]" env0]
  note tz = page_and_zoom_stay_in_range[of "app_pdf\<lparr>pdf_zoom_level := 4\<rparr>" "[]" env0]
  note ty = page_and_zoom_stay_in_range[of "app_pdf\<lparr>pdf_zoom_level := 1/2\<rparr>" "[]" env0]
  from t[THEN conjunct1, rule_format, OF h] st
  have c1: "pdf_zoom_level (run ?acts app_pdf) \<le> 4" "pdf_current_page_index (run ?acts app_pdf) \<le> 4"
    by simp_all
  from t st have c2: "pdf_current_page_index (pdf_next_page env0 app_pdf) = 1"
    "pdf_previous_page env0 app_pdf = app_pdf" by simp_all
  from tz have c3: "pdf_zoom_in env0 (app_pdf\<lparr>pdf_zoom_level := 4\<rparr>) = app_pdf\<lparr>pdf_zoom_level := 4\<rparr>"
    by simp
  from ty have c4: "pdf_zoom_out env0 (app_pdf\<lparr>pdf_zoom_level := 1/2\<rparr>) = app_pdf\<lparr>pdf_zoom_level := 1/2\<rparr>"
    by simp
  from t4 st have c5: "pdf_next_page env0 (app_pdf\<lparr>pdf_current_page_index := 4\<rparr>) = app_pdf\<lparr>pdf_current_page_index := 4\<rparr>"
    "pdf_current_page_index (pdf_previous_page env0 (app_pdf\<lparr>pdf_current_page_index := 4\<rparr>)) = 3"
    by simp_all
  have cmds': "list_all (\<lambda>x. is_pdf_command (snd x)) ?acts"
    using cmds by (simp only: list_all_iff)
  show ?thesis using st cmds' c1 c2 c3 c4 c5 by simp
qed

subsection \<open>Selecting a paged document\<close>

lemma save_timestamps_update:
  "save_timestamps e m s =
     s\<lparr>disk := snd (save_timestamps_io (fault_of (save_faults e (saves_done s))) (unlink_fails e)
                      (json_dump e m) (disk s)),
       saves_done := Suc (saves_done s),
       events := events s @ SaveCall m # (if save_faults e (saves_done s) = None then [] else [LogError])\<rparr>"
proof (cases "save_faults e (saves_done s)")
  case None
  then show ?thesis
    by (simp add: save_timestamps_def fault_of_def emit_def save_timestamps_io_def save_try_def)
next
  case (Some st)
  then show ?thesis
    by (cases st) (auto simp: save_timestamps_def fault_of_def emit_def save_timestamps_io_def save_try_def)
qed

lemma click_pdf:
  assumes "lower (path_suffix p) = ''.pdf''"
  shows "handle_media_click e p s =
     (load_pdf_media e p ((stop_and_save_current_media e s)\<lparr>active_media_type := Some Pdf\<rparr>))
       \<lparr>now_playing := ''Selected: '' @ path_name p\<rparr>"
  using assms
  by (simp add: handle_media_click_def Let_def SUPPORTED_VIDEO_EXT_def SUPPORTED_AUDIO_EXT_def
      SUPPORTED_PDF_EXT_def)

lemma store_last_opened_keeps:
  assumes "store_last_opened e p s = Some s6"
  shows "pdf_current_page_index s6 = pdf_current_page_index s"
    "pdf_zoom_level s6 = pdf_zoom_level s" "pdf_page_count s6 = pdf_page_count s"
    "pdf_doc s6 = pdf_doc s" "current_pdf_path s6 = current_pdf_path s" "view s6 = view s"
  using assms
  by (auto simp: store_last_opened_def Let_def save_timestamps_update ts_set_def emit_def
      split: option.splits if_splits)

lemma show_pdf_keeps:
  "pdf_current_page_index (show_pdf p s) = pdf_current_page_index s"
  "pdf_zoom_level (show_pdf p s) = pdf_zoom_level s"
  by (simp_all add: show_pdf_def manage_views_def emit_def show_error_def)

lemma load_pdf_page_zoom:
  assumes "fitz_open e = Some n"
  shows "pdf_current_page_index (load_pdf_media e p s) = 0 \<and> pdf_zoom_level (load_pdf_media e p s) = 1"
proof (cases "store_last_opened e p (open_pdf n p (close_previous_pdf s))")
  case None
  with assms show ?thesis
    by (simp add: load_pdf_media_def load_pdf_try_def Let_def open_pdf_def emit_def show_error_def
        manage_views_def)
next
  case (Some s6)
  from store_last_opened_keeps(1,2)[OF Some] assms Some show ?thesis
    by (simp add: load_pdf_media_def load_pdf_try_def Let_def show_pdf_keeps open_pdf_def)
qed






subsection \<open>No restore of page and zoom\<close>

text \<open>
  C1, as the program has it. Selecting a paged document that the engine opens puts
  the session on page 0 at zoom 1.0, whatever the store holds for it, and the first
  render, which renders the current page, keeps both. The stored \<open>pdf_page\<close> and
  \<open>pdf_zoom\<close> are written when a document is left and never read.
\<close>

theorem select_pdf_starts_at_first_page:
  assumes "lower (path_suffix p) = ''.pdf''" and "fitz_open e = Some n"
  shows "pdf_current_page_index (handle_media_click e p s) = 0
    \<and> pdf_zoom_level (handle_media_click e p s) = 1
    \<and> pdf_current_page_index (step e' RenderCurrentPage (handle_media_click e p s)) = 0
    \<and> pdf_zoom_level (step e' RenderCurrentPage (handle_media_click e p s)) = 1"
proof -
  have a: "pdf_current_page_index (handle_media_click e p s) = 0"
    "pdf_zoom_level (handle_media_click e p s) = 1"
    using load_pdf_page_zoom[OF assms(2)] by (simp_all add: click_pdf[OF assms(1)])
  then show ?thesis
    by (simp add: render_pdf_page_def emit_def)
qed

theorem select_pdf_starts_at_first_page_witness:
  "lower (path_suffix b_pdf) = ''.pdf'' \<and> fitz_open env0 = Some 5
   \<and> entry_fields store_b ''/lib/b.pdf''
        = Some [(''last_opened'', PStr ''2026-01-01T09:00:00''), (''filename'', PStr ''b.pdf''),
                (''pdf_page'', PInt 3), (''pdf_zoom'', PFloat 2)]
   \<and> pdf_current_page_index
        (handle_media_click env0 b_pdf (init_app store_b \<lparr>store_file = None, temp_file = None\<rparr> True)) = 0
   \<and> pdf_zoom_level
        (handle_media_click env0 b_pdf (init_app store_b \<lparr>store_file = None, temp_file = None\<rparr> True)) = 1"
proof -
  have h1: "lower (path_suffix b_pdf) = ''.pdf''" by (simp add: model_defs example_defs)
  have h2: "fitz_open env0 = Some 5" by (simp add: env0_def)
  have h3: "entry_fields store_b ''/lib/b.pdf''
        = Some [(''last_opened'', PStr ''2026-01-01T09:00:00''), (''filename'', PStr ''b.pdf''),
                (''pdf_page'', PInt 3), (''pdf_zoom'', PFloat 2)]"
    by (simp add: entry_fields_def store_b_def)
  from select_pdf_starts_at_first_page[OF h1 h2, of "init_app store_b \<lparr>store_file = None, temp_file = None\<rparr> True" env0]
  show ?thesis using h1 h2 h3 by simp
qed

text \<open>
  C1 as stated fails. After \<^verbatim>\<open>b.pdf\<close> was left on page index 3 at zoom 2.0, the
  store holds \<open>pdf_page = 3\<close> and \<open>pdf_zoom = 2.0\<close> for it; selecting it again (five
  pages) gives page 0 and zoom 1.0, not page 3 and zoom 2.0.
\<close>

theorem stored_page_and_zoom_not_restored_counterexample:
  "map_of (timestamps (run (butlast revisit) app0)) ''/lib/b.pdf''
     = Some (PDict [(''last_opened'', PStr ''2026-01-01T10:00:00''), (''filename'', PStr ''b.pdf''),
                    (''pdf_page'', PInt 3), (''pdf_zoom'', PFloat 2)])
   \<and> pdf_doc (run revisit app0) = Some ''/lib/b.pdf''
   \<and> pdf_page_count (run revisit app0) = 5
   \<and> pdf_current_page_index (run revisit app0) = 0
   \<and> pdf_zoom_level (run revisit app0) = 1
   \<and> pdf_current_page_index (run revisit app0) \<noteq> 3
   \<and> pdf_zoom_level (run revisit app0) \<noteq> 2"
  by (simp add: model_defs example_defs)

theorem slider_release_seeks_to_end_witness:
  "vlc_player (slider_drag 100 app_playing)
   \<and> current_vlc_media_path (slider_drag 100 app_playing) \<noteq> None
   \<and> vlc_is_seekable env0
   \<and> seeks (new_events (slider_drag 100 app_playing)
               (on_media_slider_release env0 (slider_drag 100 app_playing))) = [100000]
   \<and> vlc_get_length env0 = Some 100000"
proof -
  have g: "vlc_player (slider_drag 100 app_playing)"
    "current_vlc_media_path (slider_drag 100 app_playing) \<noteq> None" "vlc_is_seekable env0"
    by (simp_all add: model_defs example_defs)
  from slider_release_seeks_to_end
  have "new_events (slider_drag 100 app_playing)
        (on_media_slider_release env0 (slider_drag 100 app_playing)) = [VlcSetTime 100000]"
    by simp
  with g slider_release_seeks_to_end show ?thesis by simp
qed

subsection \<open>One engine handle at a time\<close>








lemma quiet_refl: "quiet_step s s"
  by (simp add: quiet_step_def)

lemma quiet_trans: "quiet_step s s' \<Longrightarrow> quiet_step s' s'' \<Longrightarrow> quiet_step s s''"
  by (auto simp: quiet_step_def)


lemma quiet_ts_set: "quiet_step s (ts_set k v s)"
  by (auto simp: quiet_step_def ts_set_def emit_def)

lemma quiet_save: "quiet_step s (save_timestamps e m s)"
  by (auto simp: quiet_step_def save_timestamps_update)
























lemma quiet_store_pdf: "quiet_step s (store_pdf_position e k s)"
  by (auto simp: store_pdf_position_def Let_def
      intro: quiet_refl quiet_trans[OF quiet_ts_set quiet_trans[OF quiet_ts_set quiet_save]]
             quiet_trans[OF quiet_ts_set quiet_trans[OF quiet_ts_set quiet_trans[OF quiet_ts_set quiet_save]]])



lemma close_pdf_keeps: "vlc_media (close_pdf e s) = vlc_media s"
  using quiet_store_pdf[of s e]
  by (auto simp: close_pdf_def emit_def quiet_step_def split: option.splits)


























end
